theory Spec2Isabelle
  imports Main
begin

section \<open>Authentication and account security of the HR backend\<close>

text \<open>
  The theory embeds \<^verbatim>\<open>SecurityService\<close> (security.service.ts), \<^verbatim>\<open>AuthService\<close>
  (auth.service.ts) and \<^verbatim>\<open>UserService.changePassword\<close> (user.service.ts).

  The relational store behind the ORM client is a record of tables, each table a list of
  rows in insertion order. Every service method is a function from the state before the
  call to a result and the state after it; a thrown exception is the result \<open>Inl e\<close>, and
  the state returned with it holds whatever had been written before the throw.

  Instants are milliseconds since the epoch. One request reads the clock several times
  (\<^verbatim>\<open>new Date()\<close>, \<^verbatim>\<open>Date.now()\<close>, the \<^verbatim>\<open>createdAt\<close> column default); all reads of one
  request are the one instant \<open>now\<close> passed to it.
\<close>

subsection \<open>Errors\<close>

datatype error =
    AppError string nat   \<comment> \<open>\<^verbatim>\<open>new AppError(message, statusCode)\<close>\<close>
  | PrismaError string    \<comment> \<open>a known request error of the ORM client, by its code\<close>
  | JwtError              \<comment> \<open>any error thrown by \<^verbatim>\<open>verify\<close>\<close>

type_synonym time = int

subsection \<open>Rows and tables\<close>

record pw_entry =
  h_password :: string
  h_changedAt :: time

record user =
  u_id :: string
  u_email :: string
  u_username :: string
  u_password :: string
  u_firstName :: string
  u_lastName :: string
  u_roleId :: string
  u_companyId :: string
  u_accountStatus :: string
  u_deactivatedAt :: "time option"
  u_deactivationReason :: "string option"
  u_lastLogin :: "time option"
  u_lastPasswordChange :: "time option"
  u_passwordHistory :: "pw_entry list option"

record role =
  r_id :: string
  r_name :: string

record company =
  c_id :: string
  c_name :: string
  c_identifier :: string
  c_isActive :: bool

record userSession =
  s_userId :: string
  s_token :: string
  s_ipAddress :: "string option"
  s_userAgent :: "string option"
  s_expiresAt :: time
  s_createdAt :: time

record failedLoginAttempt =
  f_email :: string
  f_ipAddress :: "string option"
  f_userAgent :: "string option"
  f_userId :: "string option"
  f_createdAt :: time

record userActivity =
  a_userId :: string
  a_action :: string
  a_metadata :: "(string \<times> string) list"
  a_ipAddress :: "string option"
  a_userAgent :: "string option"
  a_createdAt :: time

text \<open>The state: the six tables the three services touch, and the lines written to
  \<^verbatim>\<open>console.error\<close>.\<close>

record state =
  users :: "user list"
  roles :: "role list"
  companies :: "company list"
  userSessions :: "userSession list"
  failedLoginAttempts :: "failedLoginAttempt list"
  userActivities :: "userActivity list"
  console :: "(string \<times> error) list"

subsection \<open>External libraries and configuration\<close>

text \<open>
  \<^verbatim>\<open>bcryptjs\<close> and \<^verbatim>\<open>jsonwebtoken\<close> are not part of the repository, and neither is the value
  of the environment; the services take them as parameters. \<open>hash\<close> receives the salt
  that the library draws; \<open>sign\<close> and \<open>verify\<close> receive the instant of the call.
  \<^verbatim>\<open>String.prototype.toUpperCase\<close> works on Unicode code points while a \<open>string\<close> here is a
  list of bytes, so it is a parameter as well.
\<close>

record payload =
  p_userId :: string
  p_roleId :: "string option"
  p_type :: string
  p_jti :: "(time \<times> string) option"   \<comment> \<open>\<^verbatim>\<open>Date.now() + '_' + random\<close>, as its two parts\<close>

record lib =
  hash :: "string \<Rightarrow> nat \<Rightarrow> string \<Rightarrow> string"          \<comment> \<open>password, rounds, salt\<close>
  compare :: "string \<Rightarrow> string \<Rightarrow> bool"                 \<comment> \<open>password, hash\<close>
  sign :: "payload \<Rightarrow> string \<Rightarrow> string \<Rightarrow> time \<Rightarrow> string"  \<comment> \<open>payload, secret, expiresIn, now\<close>
  verify :: "string \<Rightarrow> string \<Rightarrow> time \<Rightarrow> payload option"  \<comment> \<open>token, secret, now\<close>
  toUpperCase :: "string \<Rightarrow> string"

record env =
  JWT_SECRET :: string
  JWT_EXPIRES_IN :: string
  JWT_REFRESH_SECRET :: string
  JWT_REFRESH_EXPIRES_IN :: string

subsection \<open>Sequencing of calls that may throw\<close>

type_synonym 'a call = "state \<Rightarrow> (error + 'a) \<times> state"

definition ret :: "'a \<Rightarrow> 'a call" where
  "ret x s = (Inr x, s)"

definition throw :: "error \<Rightarrow> 'a call" where
  "throw e s = (Inl e, s)"

definition thenE :: "'a call \<Rightarrow> ('a \<Rightarrow> 'b call) \<Rightarrow> 'b call" where
  "thenE m f s = (case m s of (Inl e, s') \<Rightarrow> (Inl e, s') | (Inr x, s') \<Rightarrow> f x s')"

definition catchE :: "'a call \<Rightarrow> (error \<Rightarrow> 'a call) \<Rightarrow> 'a call" where
  "catchE m h s = (case m s of (Inl e, s') \<Rightarrow> h e s' | (Inr x, s') \<Rightarrow> (Inr x, s'))"

subsection \<open>The ORM client\<close>

text \<open>
  The schema is not among the sources. What the calls below rely on is taken from the
  calls themselves: \<^verbatim>\<open>findUnique\<close> and \<^verbatim>\<open>delete\<close> address a row by a unique column
  (\<^verbatim>\<open>user.id\<close>, \<^verbatim>\<open>user.email\<close>, \<^verbatim>\<open>userSession.token\<close>), and \<open>username\<close> is unique as well.
  The identifier of a company is unique: \<^verbatim>\<open>createCompany\<close> (company.service.ts) reports P2002
  on \<^verbatim>\<open>company.create\<close> as a taken identifier.
  \<^verbatim>\<open>create\<close> on a taken unique value throws P2002; \<^verbatim>\<open>update\<close> and \<^verbatim>\<open>delete\<close> of a row that
  does not exist throw P2025.
\<close>

definition user_findUnique_id :: "state \<Rightarrow> string \<Rightarrow> user option" where
  "user_findUnique_id s i = find (\<lambda>u. u_id u = i) (users s)"

definition user_findUnique_email :: "state \<Rightarrow> string \<Rightarrow> user option" where
  "user_findUnique_email s e = find (\<lambda>u. u_email u = e) (users s)"

definition user_findFirst :: "state \<Rightarrow> (user \<Rightarrow> bool) \<Rightarrow> user option" where
  "user_findFirst s P = find P (users s)"

definition user_update :: "string \<Rightarrow> (user \<Rightarrow> user) \<Rightarrow> user call" where
  "user_update i f s =
     (case find (\<lambda>u. u_id u = i) (users s) of
        None \<Rightarrow> (Inl (PrismaError ''P2025''), s)
      | Some u \<Rightarrow>
          (Inr (f u), s\<lparr>users := map (\<lambda>x. if u_id x = i then f x else x) (users s)\<rparr>))"

definition user_create :: "user \<Rightarrow> user call" where
  "user_create u s =
     (if \<exists>x \<in> set (users s).
           u_id x = u_id u \<or> u_email x = u_email u \<or> u_username x = u_username u
      then (Inl (PrismaError ''P2002''), s)
      else (Inr u, s\<lparr>users := users s @ [u]\<rparr>))"

definition role_findFirst :: "state \<Rightarrow> (role \<Rightarrow> bool) \<Rightarrow> role option" where
  "role_findFirst s P = find P (roles s)"

definition company_create :: "company \<Rightarrow> company call" where
  "company_create c s =
     (if \<exists>x \<in> set (companies s). c_id x = c_id c \<or> c_identifier x = c_identifier c
      then (Inl (PrismaError ''P2002''), s)
      else (Inr c, s\<lparr>companies := companies s @ [c]\<rparr>))"

definition userSession_deleteMany :: "(userSession \<Rightarrow> bool) \<Rightarrow> state \<Rightarrow> state" where
  "userSession_deleteMany P s = s\<lparr>userSessions := filter (\<lambda>x. \<not> P x) (userSessions s)\<rparr>"

definition userSession_create :: "userSession \<Rightarrow> userSession call" where
  "userSession_create x s =
     (if \<exists>y \<in> set (userSessions s). s_token y = s_token x
      then (Inl (PrismaError ''P2002''), s)
      else (Inr x, s\<lparr>userSessions := userSessions s @ [x]\<rparr>))"

definition userSession_delete :: "string \<Rightarrow> unit call" where
  "userSession_delete token s =
     (if \<exists>y \<in> set (userSessions s). s_token y = token
      then (Inr (), s\<lparr>userSessions := filter (\<lambda>y. s_token y \<noteq> token) (userSessions s)\<rparr>)
      else (Inl (PrismaError ''P2025''), s))"

definition failedLoginAttempt_create :: "failedLoginAttempt \<Rightarrow> state \<Rightarrow> state" where
  "failedLoginAttempt_create a s = s\<lparr>failedLoginAttempts := failedLoginAttempts s @ [a]\<rparr>"

definition failedLoginAttempt_count :: "state \<Rightarrow> (failedLoginAttempt \<Rightarrow> bool) \<Rightarrow> nat" where
  "failedLoginAttempt_count s P = length (filter P (failedLoginAttempts s))"

definition failedLoginAttempt_deleteMany ::
  "(failedLoginAttempt \<Rightarrow> bool) \<Rightarrow> state \<Rightarrow> state" where
  "failedLoginAttempt_deleteMany P s =
     s\<lparr>failedLoginAttempts := filter (\<lambda>x. \<not> P x) (failedLoginAttempts s)\<rparr>"

definition userActivity_create :: "userActivity \<Rightarrow> userActivity call" where
  "userActivity_create a s = (Inr a, s\<lparr>userActivities := userActivities s @ [a]\<rparr>)"

text \<open>\<^verbatim>\<open>include: { role: true }\<close> followed by \<^verbatim>\<open>user.role?.name || 'USER'\<close>.\<close>

definition role_name :: "state \<Rightarrow> user \<Rightarrow> string" where
  "role_name s u =
     (case find (\<lambda>r. r_id r = u_roleId u) (roles s) of
        None \<Rightarrow> ''USER''
      | Some r \<Rightarrow> if r_name r = [] then ''USER'' else r_name r)"

subsection \<open>SecurityService\<close>

definition MAX_FAILED_ATTEMPTS :: nat where
  "MAX_FAILED_ATTEMPTS = 5"

definition LOCKOUT_DURATION :: int where
  "LOCKOUT_DURATION = 15 * 60 * 1000"

definition SESSION_EXPIRY :: int where
  "SESSION_EXPIRY = 24 * 60 * 60 * 1000"

definition trackFailedLoginAttempt ::
  "string \<Rightarrow> string option \<Rightarrow> string option \<Rightarrow> time \<Rightarrow> unit call" where
  "trackFailedLoginAttempt email ipAddress userAgent now s =
     (let user = user_findUnique_email s email;
          s1 = failedLoginAttempt_create
                 \<lparr>f_email = email, f_ipAddress = ipAddress, f_userAgent = userAgent,
                  f_userId = map_option u_id user, f_createdAt = now\<rparr> s
      in case user of
           None \<Rightarrow> (Inr (), s1)
         | Some u \<Rightarrow>
             (let recentAttempts = failedLoginAttempt_count s1
                    (\<lambda>a. f_userId a = Some (u_id u) \<and> now - LOCKOUT_DURATION \<le> f_createdAt a)
              in if MAX_FAILED_ATTEMPTS \<le> recentAttempts
                 then thenE (user_update (u_id u)
                        (\<lambda>x. x\<lparr>u_accountStatus := ''LOCKED'',
                               u_deactivatedAt := Some now,
                               u_deactivationReason := Some ''Too many failed login attempts''\<rparr>))
                        (\<lambda>_. ret ()) s1
                 else (Inr (), s1)))"

definition isAccountLocked :: "string \<Rightarrow> time \<Rightarrow> bool call" where
  "isAccountLocked userId now s =
     (case user_findUnique_id s userId of
        None \<Rightarrow> (Inr False, s)
      | Some u \<Rightarrow>
          if u_accountStatus u = ''LOCKED'' then
            (case u_deactivatedAt u of
               None \<Rightarrow> (Inr False, s)
             | Some d \<Rightarrow>
                 (let lockoutEnd = d + LOCKOUT_DURATION
                  in if now < lockoutEnd then (Inr True, s)
                     else thenE (user_update userId
                            (\<lambda>x. x\<lparr>u_accountStatus := ''ACTIVE'',
                                   u_deactivatedAt := None,
                                   u_deactivationReason := None\<rparr>))
                            (\<lambda>_. ret False) s))
          else (Inr False, s))"

definition createSession ::
  "string \<Rightarrow> string \<Rightarrow> string option \<Rightarrow> string option \<Rightarrow> time \<Rightarrow> userSession call" where
  "createSession userId token ipAddress userAgent now s =
     userSession_create
       \<lparr>s_userId = userId, s_token = token, s_ipAddress = ipAddress,
        s_userAgent = userAgent, s_expiresAt = now + SESSION_EXPIRY, s_createdAt = now\<rparr>
       (userSession_deleteMany (\<lambda>x. s_token x = token) s)"

definition invalidateSession :: "string \<Rightarrow> unit call" where
  "invalidateSession token s = userSession_delete token s"

definition invalidateAllSessions :: "string \<Rightarrow> unit call" where
  "invalidateAllSessions userId s =
     (Inr (), userSession_deleteMany (\<lambda>x. s_userId x = userId) s)"

definition trackActivity ::
  "string \<Rightarrow> string \<Rightarrow> (string \<times> string) list \<Rightarrow> string option \<Rightarrow> string option \<Rightarrow> time
     \<Rightarrow> userActivity call" where
  "trackActivity userId action metadata ipAddress userAgent now s =
     userActivity_create
       \<lparr>a_userId = userId, a_action = action, a_metadata = metadata,
        a_ipAddress = ipAddress, a_userAgent = userAgent, a_createdAt = now\<rparr> s"

definition cleanupOldRecords :: "time \<Rightarrow> unit call" where
  "cleanupOldRecords now s =
     (Inr (),
      failedLoginAttempt_deleteMany (\<lambda>a. f_createdAt a < now - 24 * 60 * 60 * 1000)
        (userSession_deleteMany (\<lambda>x. s_expiresAt x < now) s))"

subsection \<open>AuthService\<close>

record IRegisterDto =
  rg_email :: string
  rg_username :: string
  rg_password :: string
  rg_firstName :: string
  rg_lastName :: string
  rg_ipAddress :: "string option"
  rg_userAgent :: "string option"

record ILoginDto =
  lg_email :: string
  lg_password :: string
  lg_ipAddress :: "string option"
  lg_userAgent :: "string option"

record IRefreshTokenDto =
  rf_refreshToken :: string
  rf_ipAddress :: "string option"
  rf_userAgent :: "string option"

record userSummary =
  us_id :: string
  us_email :: string
  us_username :: string
  us_role :: string
  us_companyId :: string

record IAuthResponse =
  accessToken :: string
  refreshToken :: string
  ar_user :: userSummary   \<comment> \<open>the field \<^verbatim>\<open>user\<close>\<close>

text \<open>What the platform draws for one request: the output of \<^verbatim>\<open>Math.random()\<close> in base 36,
  the salt of \<^verbatim>\<open>hash\<close>, and the primary keys of the rows the request inserts.\<close>

record drawn =
  d_random :: string
  d_salt :: string
  d_companyId :: string
  d_userId :: string

definition generateTokens :: "lib \<Rightarrow> env \<Rightarrow> user \<Rightarrow> time \<Rightarrow> string \<Rightarrow> string \<times> string" where
  "generateTokens L E u now rnd =
     (sign L \<lparr>p_userId = u_id u, p_roleId = Some (u_roleId u), p_type = ''access'',
              p_jti = None\<rparr> (JWT_SECRET E) (JWT_EXPIRES_IN E) now,
      sign L \<lparr>p_userId = u_id u, p_roleId = None, p_type = ''refresh'',
              p_jti = Some (now, rnd)\<rparr> (JWT_REFRESH_SECRET E) (JWT_REFRESH_EXPIRES_IN E) now)"

definition authResponse :: "string \<times> string \<Rightarrow> state \<Rightarrow> user \<Rightarrow> IAuthResponse" where
  "authResponse tokens s u =
     \<lparr>accessToken = fst tokens, refreshToken = snd tokens,
      ar_user = \<lparr>us_id = u_id u, us_email = u_email u, us_username = u_username u,
              us_role = role_name s u, us_companyId = u_companyId u\<rparr>\<rparr>"

text \<open>
  Modelled from the spec: the schema of the account table (the column defaults of the
  \<^verbatim>\<open>User\<close> model) is not among the sources. A row starts with a generated primary key,
  the status of an active account, and every nullable column null: no deactivation stamp
  or reason, no last login, no last password change and no password history (which
  \<^verbatim>\<open>changePassword\<close> reads as the empty list). The caller sets the other columns.
\<close>

definition user_defaults :: "string \<Rightarrow> user" where
  "user_defaults i =
     \<lparr>u_id = i, u_email = [], u_username = [], u_password = [], u_firstName = [],
      u_lastName = [], u_roleId = [], u_companyId = [],
      u_accountStatus = ''ACTIVE'', u_deactivatedAt = None, u_deactivationReason = None,
      u_lastLogin = None, u_lastPasswordChange = None, u_passwordHistory = None\<rparr>"

definition register :: "lib \<Rightarrow> env \<Rightarrow> IRegisterDto \<Rightarrow> time \<Rightarrow> drawn \<Rightarrow> IAuthResponse call" where
  "register L E data now g s =
     (case user_findFirst s
             (\<lambda>u. u_email u = rg_email data \<or> u_username u = rg_username data) of
        Some existingUser \<Rightarrow> (Inl (AppError ''User already exists'' 400), s)
      | None \<Rightarrow>
          (let hashedPassword = hash L (rg_password data) 10 (d_salt g)
           in case role_findFirst s (\<lambda>r. r_name r = ''USER'') of
                None \<Rightarrow> (Inl (AppError ''Default role not found'' 500), s)
              | Some defaultRole \<Rightarrow>
                  thenE (company_create
                           \<lparr>c_id = d_companyId g,
                            c_name = rg_firstName data @ CHR 0x27 # ''s Company'',
                            c_identifier = toUpperCase L (rg_username data),
                            c_isActive = True\<rparr>)
                    (\<lambda>defaultCompany.
                  thenE (user_create
                           (user_defaults (d_userId g)
                              \<lparr>u_email := rg_email data,
                               u_username := rg_username data,
                               u_password := hashedPassword,
                               u_firstName := rg_firstName data,
                               u_lastName := rg_lastName data,
                               u_roleId := r_id defaultRole,
                               u_companyId := c_id defaultCompany\<rparr>))
                    (\<lambda>usr.
                  let tokens = generateTokens L E usr now (d_random g) in
                  thenE (createSession (u_id usr) (snd tokens)
                           (rg_ipAddress data) (rg_userAgent data) now)
                    (\<lambda>_.
                  thenE (trackActivity (u_id usr) ''USER_REGISTERED''
                           [(''username'', u_username usr)]
                           (rg_ipAddress data) (rg_userAgent data) now)
                    (\<lambda>_. ret (authResponse tokens s usr))))) s))"

definition login :: "lib \<Rightarrow> env \<Rightarrow> ILoginDto \<Rightarrow> time \<Rightarrow> drawn \<Rightarrow> IAuthResponse call" where
  "login L E data now g s =
     (case user_findUnique_email s (lg_email data) of
        None \<Rightarrow>
          thenE (trackFailedLoginAttempt (lg_email data)
                   (lg_ipAddress data) (lg_userAgent data) now)
            (\<lambda>_. throw (AppError ''Invalid credentials'' 401)) s
      | Some usr \<Rightarrow>
          thenE (isAccountLocked (u_id usr) now)
            (\<lambda>isLocked.
               if isLocked then
                 throw (AppError
                   ''Account is locked due to too many failed attempts. Please try again later.''
                   401)
               else if \<not> compare L (lg_password data) (u_password usr) then
                 thenE (trackFailedLoginAttempt (lg_email data)
                          (lg_ipAddress data) (lg_userAgent data) now)
                   (\<lambda>_. throw (AppError ''Invalid credentials'' 401))
               else
                 thenE (user_update (u_id usr) (\<lambda>x. x\<lparr>u_lastLogin := Some now\<rparr>))
                   (\<lambda>_.
                 let tokens = generateTokens L E usr now (d_random g) in
                 thenE (createSession (u_id usr) (snd tokens)
                          (lg_ipAddress data) (lg_userAgent data) now)
                   (\<lambda>_.
                 thenE (trackActivity (u_id usr) ''USER_LOGGED_IN''
                          [(''username'', u_username usr)]
                          (lg_ipAddress data) (lg_userAgent data) now)
                   (\<lambda>_. ret (authResponse tokens s usr))))) s)"

text \<open>The method \<^verbatim>\<open>refreshToken\<close>; the response record already has a field of that name.\<close>

definition refreshTokenFlow ::
  "lib \<Rightarrow> env \<Rightarrow> IRefreshTokenDto \<Rightarrow> time \<Rightarrow> drawn \<Rightarrow> IAuthResponse call" where
  "refreshTokenFlow L E data now g s =
     catchE
       (\<lambda>s. case verify L (rf_refreshToken data) (JWT_REFRESH_SECRET E) now of
              None \<Rightarrow> (Inl JwtError, s)
            | Some decoded \<Rightarrow>
                (case user_findUnique_id s (p_userId decoded) of
                   None \<Rightarrow> (Inl (AppError ''User not found'' 401), s)
                 | Some usr \<Rightarrow>
                     thenE (invalidateSession (rf_refreshToken data))
                       (\<lambda>_.
                     let tokens = generateTokens L E usr now (d_random g) in
                     thenE (createSession (u_id usr) (snd tokens)
                              (rf_ipAddress data) (rf_userAgent data) now)
                       (\<lambda>_.
                     thenE (trackActivity (u_id usr) ''TOKEN_REFRESHED''
                              [(''username'', u_username usr)]
                              (rf_ipAddress data) (rf_userAgent data) now)
                       (\<lambda>_. ret (authResponse tokens s usr)))) s))
       (\<lambda>error. throw (AppError ''Invalid refresh token'' 401)) s"

definition logout :: "string \<Rightarrow> unit call" where
  "logout token s =
     catchE (invalidateSession token)
       (\<lambda>error s'.
          (Inr (),
           s'\<lparr>console := console s' @
              [(''Error during logout, refresh token might not exist:'', error)]\<rparr>)) s"

subsection \<open>UserService.changePassword\<close>

record changed =
  message :: string

text \<open>\<^verbatim>\<open>user.passwordHistory || []\<close>: a row that has no history yet reads as the empty list.\<close>

definition storedHistory :: "user \<Rightarrow> pw_entry list" where
  "storedHistory usr = (case u_passwordHistory usr of None \<Rightarrow> [] | Some h \<Rightarrow> h)"

text \<open>The \<^verbatim>\<open>for\<close> loop over the stored history: one \<^verbatim>\<open>compare\<close> per entry, in order,
  throwing at the first entry that matches.\<close>

fun checkHistory :: "lib \<Rightarrow> string \<Rightarrow> pw_entry list \<Rightarrow> error + unit" where
  "checkHistory L newPassword [] = Inr ()"
| "checkHistory L newPassword (history # rest) =
     (if compare L newPassword (h_password history)
      then Inl (AppError
             ''New password cannot be the same as any of your last 5 passwords'' 400)
      else checkHistory L newPassword rest)"

definition changePassword ::
  "lib \<Rightarrow> string \<Rightarrow> string \<Rightarrow> string \<Rightarrow> time \<Rightarrow> string \<Rightarrow> changed call" where
  "changePassword L userId currentPassword newPassword now salt s =
     (case user_findUnique_id s userId of
        None \<Rightarrow> (Inl (AppError ''User not found'' 404), s)
      | Some usr \<Rightarrow>
          if \<not> compare L currentPassword (u_password usr)
          then (Inl (AppError ''Current password is incorrect'' 400), s)
          else
            (let passwordHistory = storedHistory usr
             in case checkHistory L newPassword passwordHistory of
                  Inl e \<Rightarrow> (Inl e, s)
                | Inr _ \<Rightarrow>
                    (let hashedPassword = hash L newPassword 10 salt;
                         updatedHistory =
                           \<lparr>h_password = hashedPassword, h_changedAt = now\<rparr>
                             # take 4 passwordHistory
                     in thenE (user_update userId
                                 (\<lambda>x. x\<lparr>u_password := hashedPassword,
                                        u_passwordHistory := Some updatedHistory,
                                        u_lastPasswordChange := Some now\<rparr>))
                          (\<lambda>_. ret \<lparr>message = ''Password updated successfully''\<rparr>) s)))"

subsection \<open>A concrete instance\<close>

text \<open>
  A small instance on which the theorems below are exercised: a salted hash that keeps
  the password behind the salt, tokens that carry the secret and the account id in the
  clear, one role, and two accounts. Alice has never changed her password and holds one
  session; Bob has changed his five times.
\<close>

text \<open>Upper-casing of the ASCII letters, for the instance.\<close>

definition asciiUpperCase :: "string \<Rightarrow> string" where
  "asciiUpperCase cs =
     map (\<lambda>c. let n = (of_char c :: nat)
              in if 97 \<le> n \<and> n \<le> 122 then char_of (n - 32) else c) cs"

definition example_lib :: lib where
  "example_lib =
     \<lparr>hash = (\<lambda>pw rounds salt. salt @ ''$'' @ pw),
      compare = (\<lambda>pw h. dropWhile (\<lambda>c. c \<noteq> CHR ''$'') h = ''$'' @ pw),
      sign = (\<lambda>p secret expiresIn now.
                secret @ ''.'' @ p_userId p @ ''.'' @
                  (case p_jti p of None \<Rightarrow> ''a'' | Some (t, r) \<Rightarrow> r)),
      verify = (\<lambda>token secret now.
                if take (length secret) token = secret
                then Some \<lparr>p_userId =
                             takeWhile (\<lambda>c. c \<noteq> CHR ''.'') (drop (length secret + 1) token),
                           p_roleId = None, p_type = ''refresh'', p_jti = None\<rparr>
                else None),
      toUpperCase = asciiUpperCase\<rparr>"

definition example_env :: env where
  "example_env =
     \<lparr>JWT_SECRET = ''k1'', JWT_EXPIRES_IN = ''15m'',
      JWT_REFRESH_SECRET = ''k2'', JWT_REFRESH_EXPIRES_IN = ''7d''\<rparr>"

definition alice :: user where
  "alice =
     \<lparr>u_id = ''u1'', u_email = ''a@x'', u_username = ''alice'', u_password = ''s$pw'',
      u_firstName = ''A'', u_lastName = ''L'', u_roleId = ''r1'', u_companyId = ''c1'',
      u_accountStatus = ''ACTIVE'', u_deactivatedAt = None, u_deactivationReason = None,
      u_lastLogin = None, u_lastPasswordChange = None, u_passwordHistory = None\<rparr>"

definition bob :: user where
  "bob =
     \<lparr>u_id = ''u2'', u_email = ''b@x'', u_username = ''bob'', u_password = ''s$p5'',
      u_firstName = ''B'', u_lastName = ''O'', u_roleId = ''r1'', u_companyId = ''c1'',
      u_accountStatus = ''ACTIVE'', u_deactivatedAt = None, u_deactivationReason = None,
      u_lastLogin = None, u_lastPasswordChange = Some 50,
      u_passwordHistory = Some
        [\<lparr>h_password = ''s$p5'', h_changedAt = 50\<rparr>,
         \<lparr>h_password = ''s$p4'', h_changedAt = 40\<rparr>,
         \<lparr>h_password = ''s$p3'', h_changedAt = 30\<rparr>,
         \<lparr>h_password = ''s$p2'', h_changedAt = 20\<rparr>,
         \<lparr>h_password = ''s$p1'', h_changedAt = 10\<rparr>]\<rparr>"

definition alice_session :: userSession where
  "alice_session =
     \<lparr>s_userId = ''u1'', s_token = ''k2.u1.r0'', s_ipAddress = None, s_userAgent = None,
      s_expiresAt = 86400000, s_createdAt = 0\<rparr>"

definition example_state :: state where
  "example_state =
     \<lparr>users = [alice, bob], roles = [\<lparr>r_id = ''r1'', r_name = ''USER''\<rparr>],
      companies = [\<lparr>c_id = ''c1'', c_name = ''A'', c_identifier = ''ALICE'',
                     c_isActive = True\<rparr>],
      userSessions = [alice_session], failedLoginAttempts = [], userActivities = [],
      console = []\<rparr>"

text \<open>The same state with Alice's session gone.\<close>

definition no_session_state :: state where
  "no_session_state = example_state\<lparr>userSessions := []\<rparr>"

text \<open>Four failed attempts on Alice's account, at the instants 1 to 4.\<close>

definition alice_attempt :: "time \<Rightarrow> failedLoginAttempt" where
  "alice_attempt t =
     \<lparr>f_email = ''a@x'', f_ipAddress = None, f_userAgent = None, f_userId = Some ''u1'',
      f_createdAt = t\<rparr>"

definition four_attempts_state :: state where
  "four_attempts_state =
     example_state\<lparr>failedLoginAttempts :=
       [alice_attempt 1, alice_attempt 2, alice_attempt 3, alice_attempt 4]\<rparr>"

text \<open>Alice's account locked at the instant 1000.\<close>

definition locked_alice :: user where
  "locked_alice =
     alice\<lparr>u_accountStatus := ''LOCKED'', u_deactivatedAt := Some 1000,
           u_deactivationReason := Some ''Too many failed login attempts''\<rparr>"

definition locked_state :: state where
  "locked_state = example_state\<lparr>users := [locked_alice, bob]\<rparr>"

definition carol_data :: IRegisterDto where
  "carol_data =
     \<lparr>rg_email = ''c@x'', rg_username = ''carol'', rg_password = ''pw3'',
      rg_firstName = ''C'', rg_lastName = ''A'', rg_ipAddress = None, rg_userAgent = None\<rparr>"

definition example_drawn :: drawn where
  "example_drawn =
     \<lparr>d_random = ''r1'', d_salt = ''t'', d_companyId = ''c3'', d_userId = ''u3''\<rparr>"

definition alice_login :: "string \<Rightarrow> ILoginDto" where
  "alice_login pw =
     \<lparr>lg_email = ''a@x'', lg_password = pw, lg_ipAddress = None, lg_userAgent = None\<rparr>"

definition alice_refresh :: IRefreshTokenDto where
  "alice_refresh =
     \<lparr>rf_refreshToken = ''k2.u1.r0'', rf_ipAddress = None, rf_userAgent = None\<rparr>"

section \<open>Properties\<close>

subsection \<open>Lookups in a table\<close>

lemma find_map_id:
  "(\<And>x. u_id (f x) = u_id x) \<Longrightarrow>
   find (\<lambda>u. u_id u = i) (map (\<lambda>x. if u_id x = i then f x else x) us)
     = map_option f (find (\<lambda>u. u_id u = i) us)"
  by (induction us) auto

lemma find_map_email:
  "(\<And>x. u_email (f x) = u_email x) \<Longrightarrow>
   find (\<lambda>u. u_email u = e) (map (\<lambda>x. if u_id x = i then f x else x) us)
     = map_option (\<lambda>x. if u_id x = i then f x else x) (find (\<lambda>u. u_email u = e) us)"
  by (induction us) auto

lemma find_Some_mem: "find P xs = Some x \<Longrightarrow> x \<in> set xs \<and> P x"
  by (induction xs) (auto split: if_splits)

lemma find_exists: "x \<in> set xs \<Longrightarrow> P x \<Longrightarrow> \<exists>y. find P xs = Some y"
  by (cases "find P xs") (auto simp: find_None_iff)

lemma find_id_distinct:
  "distinct (map u_id us) \<Longrightarrow> u \<in> set us \<Longrightarrow> find (\<lambda>x. u_id x = u_id u) us = Some u"
  by (induction us) (auto simp: rev_image_eqI)

lemma find_append_fresh:
  "\<forall>x \<in> set xs. \<not> P x \<Longrightarrow> P y \<Longrightarrow> find P (xs @ [y]) = Some y"
  by (induction xs) auto

lemma distinct_tokens_filter:
  "distinct (map s_token xs) \<Longrightarrow> distinct (map s_token (filter P xs))"
  by (induction xs) auto

lemma user_update_found:
  "find (\<lambda>u. u_id u = i) (users s) = Some u \<Longrightarrow>
   user_update i f s =
     (Inr (f u), s\<lparr>users := map (\<lambda>x. if u_id x = i then f x else x) (users s)\<rparr>)"
  by (simp add: user_update_def)

text \<open>The primary key of the account table stays a key under insert and update.\<close>

lemma user_create_distinct_ids:
  "distinct (map u_id (users s)) \<Longrightarrow> distinct (map u_id (users (snd (user_create u s))))"
  by (auto simp: user_create_def)

lemma map_u_id_update:
  "(\<And>x. u_id (f x) = u_id x) \<Longrightarrow>
   map u_id (map (\<lambda>x. if u_id x = i then f x else x) us) = map u_id us"
  by (induction us) auto

lemma user_update_distinct_ids:
  assumes "distinct (map u_id (users s))" and "\<And>x. u_id (f x) = u_id x"
  shows "distinct (map u_id (users (snd (user_update i f s))))"
  using assms(1)
  by (simp add: user_update_def map_u_id_update [OF assms(2)] del: map_map
      split: option.splits)

subsection \<open>Session store\<close>

lemma createSession_result:
  "createSession userId token ip ua now s =
     (Inr \<lparr>s_userId = userId, s_token = token, s_ipAddress = ip, s_userAgent = ua,
            s_expiresAt = now + 24 * 60 * 60 * 1000, s_createdAt = now\<rparr>,
      s\<lparr>userSessions := filter (\<lambda>x. s_token x \<noteq> token) (userSessions s) @
         [\<lparr>s_userId = userId, s_token = token, s_ipAddress = ip, s_userAgent = ua,
           s_expiresAt = now + 24 * 60 * 60 * 1000, s_createdAt = now\<rparr>]\<rparr>)"
  by (simp add: createSession_def userSession_create_def userSession_deleteMany_def
      SESSION_EXPIRY_def)

text \<open>
  Claim C6. \<^verbatim>\<open>createSession\<close> never throws. It removes every session that holds the
  token before it inserts, so the new row is the only session with that token, and the
  new row expires 24 hours (in milliseconds) after the instant of creation. A table whose
  tokens are pairwise different stays so under \<^verbatim>\<open>createSession\<close> and under the three
  deleting operations of the session store.
\<close>

theorem createSession_token_unique:
  "(\<exists>x s'. createSession userId token ip ua now s = (Inr x, s')
       \<and> s_token x = token \<and> s_userId x = userId
       \<and> s_expiresAt x = now + 24 * 60 * 60 * 1000
       \<and> userSessions s' = filter (\<lambda>y. s_token y \<noteq> token) (userSessions s) @ [x]
       \<and> filter (\<lambda>y. s_token y = token) (userSessions s') = [x])
   \<and> (distinct (map s_token (userSessions s)) \<longrightarrow>
        distinct (map s_token (userSessions (snd (createSession userId token ip ua now s))))
        \<and> distinct (map s_token (userSessions (snd (invalidateSession token s))))
        \<and> distinct (map s_token (userSessions (snd (invalidateAllSessions userId s))))
        \<and> distinct (map s_token (userSessions (snd (cleanupOldRecords now s)))))"
proof (intro conjI impI)
  let ?x = "\<lparr>s_userId = userId, s_token = token, s_ipAddress = ip, s_userAgent = ua,
            s_expiresAt = now + 24 * 60 * 60 * 1000, s_createdAt = now\<rparr>"
  let ?s' = "s\<lparr>userSessions := filter (\<lambda>x. s_token x \<noteq> token) (userSessions s) @ [?x]\<rparr>"
  have "filter (\<lambda>y. s_token y = token) (filter (\<lambda>y. s_token y \<noteq> token) (userSessions s)) = []"
    by (simp add: filter_empty_conv)
  then have one: "filter (\<lambda>y. s_token y = token) (userSessions ?s') = [?x]"
    by simp
  show "\<exists>x s'. createSession userId token ip ua now s = (Inr x, s')
       \<and> s_token x = token \<and> s_userId x = userId
       \<and> s_expiresAt x = now + 24 * 60 * 60 * 1000
       \<and> userSessions s' = filter (\<lambda>y. s_token y \<noteq> token) (userSessions s) @ [x]
       \<and> filter (\<lambda>y. s_token y = token) (userSessions s') = [x]"
    unfolding createSession_result using one by simp
next
  assume "distinct (map s_token (userSessions s))"
  then show
    "distinct (map s_token (userSessions (snd (createSession userId token ip ua now s))))"
    unfolding createSession_result by (auto simp: distinct_tokens_filter)
next
  assume "distinct (map s_token (userSessions s))"
  then show "distinct (map s_token (userSessions (snd (invalidateSession token s))))"
    by (simp add: invalidateSession_def userSession_delete_def distinct_tokens_filter)
next
  assume "distinct (map s_token (userSessions s))"
  then show "distinct (map s_token (userSessions (snd (invalidateAllSessions userId s))))"
    by (simp add: invalidateAllSessions_def userSession_deleteMany_def distinct_tokens_filter)
next
  assume "distinct (map s_token (userSessions s))"
  then show "distinct (map s_token (userSessions (snd (cleanupOldRecords now s))))"
    by (simp add: cleanupOldRecords_def userSession_deleteMany_def
        failedLoginAttempt_deleteMany_def distinct_tokens_filter)
qed

theorem createSession_token_unique_witness:
  "distinct (map s_token (userSessions example_state))
   \<and> (\<exists>x s'. createSession ''u1'' ''k2.u1.r0'' None None 5 example_state = (Inr x, s')
         \<and> s_expiresAt x = 86400005
         \<and> filter (\<lambda>y. s_token y = ''k2.u1.r0'') (userSessions s') = [x])
   \<and> distinct (map s_token
        (userSessions (snd (createSession ''u1'' ''k2.u1.r0'' None None 5 example_state))))"
proof -
  have d: "distinct (map s_token (userSessions example_state))"
    by (simp add: example_state_def)
  show ?thesis
    using d createSession_token_unique [of "''u1''" "''k2.u1.r0''" None None 5 example_state]
    by auto
qed

subsection \<open>Registration\<close>

text \<open>
  Claim C7. When the email or the username of the request is already held by an account,
  \<^verbatim>\<open>register\<close> throws \<^verbatim>\<open>AppError('User already exists', 400)\<close> and the state is the
  state before the call: no account, company, session or activity row is written.
\<close>

theorem register_conflict:
  assumes "\<exists>u \<in> set (users s). u_email u = rg_email data \<or> u_username u = rg_username data"
  shows "register L E data now g s = (Inl (AppError ''User already exists'' 400), s)"
proof -
  from assms have
    "find (\<lambda>u. u_email u = rg_email data \<or> u_username u = rg_username data) (users s) \<noteq> None"
    by (auto simp: find_None_iff)
  then show ?thesis
    by (auto simp: register_def user_findFirst_def)
qed

theorem register_conflict_witness:
  "register example_lib example_env (carol_data\<lparr>rg_email := ''a@x''\<rparr>) 7 example_drawn
     example_state = (Inl (AppError ''User already exists'' 400), example_state)
   \<and> register example_lib example_env (carol_data\<lparr>rg_username := ''alice''\<rparr>) 7 example_drawn
     example_state = (Inl (AppError ''User already exists'' 400), example_state)"
proof -
  have e: "\<exists>u \<in> set (users example_state).
      u_email u = rg_email (carol_data\<lparr>rg_email := ''a@x''\<rparr>)
      \<or> u_username u = rg_username (carol_data\<lparr>rg_email := ''a@x''\<rparr>)"
    by (simp add: example_state_def alice_def)
  have n: "\<exists>u \<in> set (users example_state).
      u_email u = rg_email (carol_data\<lparr>rg_username := ''alice''\<rparr>)
      \<or> u_username u = rg_username (carol_data\<lparr>rg_username := ''alice''\<rparr>)"
    by (simp add: example_state_def alice_def)
  show ?thesis
    using register_conflict [OF e] register_conflict [OF n] by simp
qed

subsection \<open>Logout\<close>

text \<open>
  Claim C8. \<^verbatim>\<open>logout\<close> returns normally on every state and every token, a second call
  with the same token included. When a session holds the token it is deleted; when none
  does, the P2025 error of the delete is caught and written to the console, and nothing
  else changes. No session holds the token afterwards.
\<close>

theorem logout_reports_success:
  "fst (logout token s) = Inr ()
   \<and> fst (logout token (snd (logout token s))) = Inr ()
   \<and> (\<forall>x \<in> set (userSessions (snd (logout token s))). s_token x \<noteq> token)
   \<and> ((\<exists>x \<in> set (userSessions s). s_token x = token) \<longrightarrow>
        snd (logout token s) =
          s\<lparr>userSessions := filter (\<lambda>y. s_token y \<noteq> token) (userSessions s)\<rparr>)
   \<and> ((\<forall>x \<in> set (userSessions s). s_token x \<noteq> token) \<longrightarrow>
        snd (logout token s) =
          s\<lparr>console := console s @
             [(''Error during logout, refresh token might not exist:'', PrismaError ''P2025'')]\<rparr>)"
  by (auto simp: logout_def catchE_def invalidateSession_def userSession_delete_def)

theorem logout_reports_success_witness:
  "fst (logout ''k2.u1.r0'' example_state) = Inr ()
   \<and> snd (logout ''k2.u1.r0'' example_state) = example_state\<lparr>userSessions := []\<rparr>
   \<and> fst (logout ''k2.u1.r0'' (snd (logout ''k2.u1.r0'' example_state))) = Inr ()
   \<and> snd (logout ''zz'' example_state) =
       example_state\<lparr>console :=
         [(''Error during logout, refresh token might not exist:'', PrismaError ''P2025'')]\<rparr>"
proof -
  have a: "\<exists>x \<in> set (userSessions example_state). s_token x = ''k2.u1.r0''"
    by (simp add: example_state_def alice_session_def)
  have b: "\<forall>x \<in> set (userSessions example_state). s_token x \<noteq> ''zz''"
    by (simp add: example_state_def alice_session_def)
  have c: "filter (\<lambda>y. s_token y \<noteq> ''k2.u1.r0'') (userSessions example_state) = []"
    by (simp add: example_state_def alice_session_def)
  have d: "console example_state = []"
    by (simp add: example_state_def)
  note t1 = logout_reports_success [of "''k2.u1.r0''" example_state]
  note t2 = logout_reports_success [of "''zz''" example_state]
  have 1: "fst (logout ''k2.u1.r0'' example_state) = Inr ()"
    using t1 by blast
  have "snd (logout ''k2.u1.r0'' example_state) =
      example_state\<lparr>userSessions :=
        filter (\<lambda>y. s_token y \<noteq> ''k2.u1.r0'') (userSessions example_state)\<rparr>"
    using t1 a by blast
  then have 2: "snd (logout ''k2.u1.r0'' example_state) = example_state\<lparr>userSessions := []\<rparr>"
    using c by simp
  have 3: "fst (logout ''k2.u1.r0'' (snd (logout ''k2.u1.r0'' example_state))) = Inr ()"
    using t1 by blast
  have "snd (logout ''zz'' example_state) =
      example_state\<lparr>console := console example_state @
        [(''Error during logout, refresh token might not exist:'', PrismaError ''P2025'')]\<rparr>"
    using t2 b by blast
  then have 4: "snd (logout ''zz'' example_state) =
      example_state\<lparr>console :=
        [(''Error during logout, refresh token might not exist:'', PrismaError ''P2025'')]\<rparr>"
    using d by simp
  show ?thesis
    using 1 2 3 4 by blast
qed

subsection \<open>Lockout check\<close>

lemma isAccountLocked_True:
  "user_findUnique_id s i = Some u \<Longrightarrow> u_accountStatus u = ''LOCKED'' \<Longrightarrow>
   u_deactivatedAt u = Some d \<Longrightarrow> now < d + 15 * 60 * 1000 \<Longrightarrow>
   isAccountLocked i now s = (Inr True, s)"
  by (simp add: isAccountLocked_def LOCKOUT_DURATION_def)

lemma isAccountLocked_cases:
  "isAccountLocked i now s = (Inr True, s)
   \<or> isAccountLocked i now s = (Inr False, s)
   \<or> isAccountLocked i now s =
       (Inr False,
        s\<lparr>users := map (\<lambda>x. if u_id x = i
                             then x\<lparr>u_accountStatus := ''ACTIVE'', u_deactivatedAt := None,
                                    u_deactivationReason := None\<rparr>
                             else x) (users s)\<rparr>)"
  by (auto simp: isAccountLocked_def user_findUnique_id_def thenE_def ret_def user_update_def
      split: option.splits)

lemma isAccountLocked_not_locked:
  "user_findUnique_id s i = Some u \<Longrightarrow>
   \<not> (u_accountStatus u = ''LOCKED''
       \<and> (\<exists>d. u_deactivatedAt u = Some d \<and> now < d + 15 * 60 * 1000))
   \<Longrightarrow> isAccountLocked i now s \<noteq> (Inr True, s)"
  by (auto simp: isAccountLocked_def LOCKOUT_DURATION_def thenE_def ret_def user_update_def
      user_findUnique_id_def split: option.splits)

text \<open>
  Claim C3. \<^verbatim>\<open>isAccountLocked\<close> never throws. It answers true exactly when the account exists, has status
  \<^verbatim>\<open>LOCKED\<close> and a lock-start \<open>d\<close>, and the instant of the check is before \<open>d\<close> plus 15
  minutes; it then leaves the state as it is. When the account is \<^verbatim>\<open>LOCKED\<close> and the
  instant of the check is at or after \<open>d\<close> plus 15 minutes, the call itself rewrites the
  account (status \<^verbatim>\<open>ACTIVE\<close>, lock-start and reason cleared), touches nothing else, and
  answers false.
\<close>

theorem isAccountLocked_window:
  "(fst (isAccountLocked userId now s) = Inr True
      \<or> fst (isAccountLocked userId now s) = Inr False)
   \<and> (fst (isAccountLocked userId now s) = Inr True \<longleftrightarrow>
      (\<exists>u d. user_findUnique_id s userId = Some u \<and> u_accountStatus u = ''LOCKED''
         \<and> u_deactivatedAt u = Some d \<and> now < d + 15 * 60 * 1000))
   \<and> (fst (isAccountLocked userId now s) = Inr True \<longrightarrow>
        snd (isAccountLocked userId now s) = s)
   \<and> (\<forall>u d. user_findUnique_id s userId = Some u \<and> u_accountStatus u = ''LOCKED''
         \<and> u_deactivatedAt u = Some d \<and> d + 15 * 60 * 1000 \<le> now \<longrightarrow>
        isAccountLocked userId now s =
          (Inr False,
           s\<lparr>users := map (\<lambda>x. if u_id x = userId
                                then x\<lparr>u_accountStatus := ''ACTIVE'', u_deactivatedAt := None,
                                       u_deactivationReason := None\<rparr>
                                else x) (users s)\<rparr>)
        \<and> user_findUnique_id (snd (isAccountLocked userId now s)) userId =
            Some (u\<lparr>u_accountStatus := ''ACTIVE'', u_deactivatedAt := None,
                    u_deactivationReason := None\<rparr>))"
proof (intro conjI allI impI)
  show "fst (isAccountLocked userId now s) = Inr True
      \<or> fst (isAccountLocked userId now s) = Inr False"
    using isAccountLocked_cases [of userId now s] by auto
next
  show "fst (isAccountLocked userId now s) = Inr True \<longleftrightarrow>
      (\<exists>u d. user_findUnique_id s userId = Some u \<and> u_accountStatus u = ''LOCKED''
         \<and> u_deactivatedAt u = Some d \<and> now < d + 15 * 60 * 1000)"
    by (auto simp: isAccountLocked_def user_findUnique_id_def LOCKOUT_DURATION_def
        thenE_def ret_def user_update_def split: option.splits)
next
  assume "fst (isAccountLocked userId now s) = Inr True"
  then show "snd (isAccountLocked userId now s) = s"
    using isAccountLocked_cases [of userId now s] by auto
next
  fix u d
  assume h: "user_findUnique_id s userId = Some u \<and> u_accountStatus u = ''LOCKED''
         \<and> u_deactivatedAt u = Some d \<and> d + 15 * 60 * 1000 \<le> now"
  then show r: "isAccountLocked userId now s =
          (Inr False,
           s\<lparr>users := map (\<lambda>x. if u_id x = userId
                                then x\<lparr>u_accountStatus := ''ACTIVE'', u_deactivatedAt := None,
                                       u_deactivationReason := None\<rparr>
                                else x) (users s)\<rparr>)"
    by (simp add: isAccountLocked_def user_findUnique_id_def LOCKOUT_DURATION_def
        thenE_def ret_def user_update_def)
  from h have f: "find (\<lambda>u. u_id u = userId) (users s) = Some u"
    by (simp add: user_findUnique_id_def)
  show "user_findUnique_id (snd (isAccountLocked userId now s)) userId =
            Some (u\<lparr>u_accountStatus := ''ACTIVE'', u_deactivatedAt := None,
                    u_deactivationReason := None\<rparr>)"
    unfolding r user_findUnique_id_def using f
    by (simp add: find_map_id)
qed

theorem isAccountLocked_window_witness:
  "user_findUnique_id locked_state ''u1'' = Some locked_alice
   \<and> isAccountLocked ''u1'' 900999 locked_state = (Inr True, locked_state)
   \<and> isAccountLocked ''u1'' 901000 locked_state = (Inr False, example_state)
   \<and> isAccountLocked ''u1'' 901001 example_state = (Inr False, example_state)"
proof -
  have f: "user_findUnique_id locked_state ''u1'' = Some locked_alice"
    by (simp add: user_findUnique_id_def locked_state_def locked_alice_def alice_def)
  have st: "u_accountStatus locked_alice = ''LOCKED''"
    and d: "u_deactivatedAt locked_alice = Some 1000"
    by (simp_all add: locked_alice_def)
  note t1 = isAccountLocked_window [of "''u1''" 900999 locked_state]
  note t2 = isAccountLocked_window [of "''u1''" 901000 locked_state]
  note t3 = isAccountLocked_window [of "''u1''" 901001 example_state]
  have "fst (isAccountLocked ''u1'' 900999 locked_state) = Inr True"
    using t1 f st d by auto
  moreover from this have "snd (isAccountLocked ''u1'' 900999 locked_state) = locked_state"
    using t1 by blast
  ultimately have 1: "isAccountLocked ''u1'' 900999 locked_state = (Inr True, locked_state)"
    by (simp add: prod_eq_iff)
  have "isAccountLocked ''u1'' 901000 locked_state =
          (Inr False,
           locked_state\<lparr>users := map (\<lambda>x. if u_id x = ''u1''
                                then x\<lparr>u_accountStatus := ''ACTIVE'', u_deactivatedAt := None,
                                       u_deactivationReason := None\<rparr>
                                else x) (users locked_state)\<rparr>)"
    using t2 f st d by auto
  then have 2: "isAccountLocked ''u1'' 901000 locked_state = (Inr False, example_state)"
    by (simp add: locked_state_def locked_alice_def example_state_def alice_def bob_def)
  have "fst (isAccountLocked ''u1'' 901001 example_state) \<noteq> Inr True"
    using t3 by (auto simp: user_findUnique_id_def example_state_def alice_def)
  then have 3: "isAccountLocked ''u1'' 901001 example_state = (Inr False, example_state)"
    using isAccountLocked_cases [of "''u1''" 901001 example_state]
    by (auto simp: example_state_def alice_def bob_def)
  show ?thesis
    using f 1 2 3 by blast
qed

subsection \<open>Password change\<close>

lemma checkHistory_Inl:
  "(\<exists>h \<in> set hs. compare L new (h_password h)) \<Longrightarrow>
   checkHistory L new hs =
     Inl (AppError ''New password cannot be the same as any of your last 5 passwords'' 400)"
  by (induction hs) auto

lemma checkHistory_Inr:
  "(\<forall>h \<in> set hs. \<not> compare L new (h_password h)) \<Longrightarrow> checkHistory L new hs = Inr ()"
  by (induction hs) auto

text \<open>
  Claim C4. \<^verbatim>\<open>changePassword\<close> throws \<^verbatim>\<open>AppError('User not found', 404)\<close> when no account
  has the id; \<^verbatim>\<open>AppError('Current password is incorrect', 400)\<close> when the current password
  does not compare equal to the stored hash; and
  \<^verbatim>\<open>AppError('New password cannot be the same as any of your last 5 passwords', 400)\<close> when
  the new password compares equal to some entry of the stored history. In all three cases
  the state is unchanged. Otherwise it succeeds: the account then holds the hash of the new
  password, the history is the new entry followed by the first four entries of the old
  history (at most five entries, newest first), and \<^verbatim>\<open>lastPasswordChange\<close> is the instant of
  the call.
\<close>

theorem changePassword_outcomes:
  "(user_findUnique_id s userId = None \<longrightarrow>
      changePassword L userId cur new now salt s = (Inl (AppError ''User not found'' 404), s))
   \<and> (\<forall>usr. user_findUnique_id s userId = Some usr \<longrightarrow>
        (\<not> compare L cur (u_password usr) \<longrightarrow>
           changePassword L userId cur new now salt s =
             (Inl (AppError ''Current password is incorrect'' 400), s))
      \<and> (compare L cur (u_password usr)
           \<and> (\<exists>h \<in> set (storedHistory usr). compare L new (h_password h)) \<longrightarrow>
           changePassword L userId cur new now salt s =
             (Inl (AppError
                ''New password cannot be the same as any of your last 5 passwords'' 400), s))
      \<and> (compare L cur (u_password usr)
           \<and> (\<forall>h \<in> set (storedHistory usr). \<not> compare L new (h_password h)) \<longrightarrow>
           changePassword L userId cur new now salt s =
             (Inr \<lparr>message = ''Password updated successfully''\<rparr>,
              s\<lparr>users := map (\<lambda>x. if u_id x = userId
                 then x\<lparr>u_password := hash L new 10 salt,
                        u_passwordHistory :=
                          Some (\<lparr>h_password = hash L new 10 salt, h_changedAt = now\<rparr>
                                  # take 4 (storedHistory usr)),
                        u_lastPasswordChange := Some now\<rparr>
                 else x) (users s)\<rparr>)
           \<and> user_findUnique_id (snd (changePassword L userId cur new now salt s)) userId =
               Some (usr\<lparr>u_password := hash L new 10 salt,
                         u_passwordHistory :=
                           Some (\<lparr>h_password = hash L new 10 salt, h_changedAt = now\<rparr>
                                   # take 4 (storedHistory usr)),
                         u_lastPasswordChange := Some now\<rparr>)
           \<and> length (\<lparr>h_password = hash L new 10 salt, h_changedAt = now\<rparr>
                        # take 4 (storedHistory usr)) \<le> 5))"
proof (intro conjI allI impI)
  assume "user_findUnique_id s userId = None"
  then show "changePassword L userId cur new now salt s =
      (Inl (AppError ''User not found'' 404), s)"
    by (simp add: changePassword_def)
next
  fix usr
  assume "user_findUnique_id s userId = Some usr" "\<not> compare L cur (u_password usr)"
  then show "changePassword L userId cur new now salt s =
             (Inl (AppError ''Current password is incorrect'' 400), s)"
    by (simp add: changePassword_def)
next
  fix usr
  assume "user_findUnique_id s userId = Some usr"
    "compare L cur (u_password usr)
           \<and> (\<exists>h \<in> set (storedHistory usr). compare L new (h_password h))"
  then show "changePassword L userId cur new now salt s =
             (Inl (AppError
                ''New password cannot be the same as any of your last 5 passwords'' 400), s)"
    by (simp add: changePassword_def checkHistory_Inl)
next
  fix usr
  assume u: "user_findUnique_id s userId = Some usr"
    and c: "compare L cur (u_password usr)
           \<and> (\<forall>h \<in> set (storedHistory usr). \<not> compare L new (h_password h))"
  from u have f: "find (\<lambda>u. u_id u = userId) (users s) = Some usr"
    by (simp add: user_findUnique_id_def)
  let ?f = "\<lambda>x. x\<lparr>u_password := hash L new 10 salt,
                         u_passwordHistory :=
                           Some (\<lparr>h_password = hash L new 10 salt, h_changedAt = now\<rparr>
                                   # take 4 (storedHistory usr)),
                         u_lastPasswordChange := Some now\<rparr>"
  show r: "changePassword L userId cur new now salt s =
      (Inr \<lparr>message = ''Password updated successfully''\<rparr>,
       s\<lparr>users := map (\<lambda>x. if u_id x = userId then ?f x else x) (users s)\<rparr>)"
    using u c f
    by (simp add: changePassword_def checkHistory_Inr thenE_def ret_def user_update_found
        Let_def)
  show "user_findUnique_id (snd (changePassword L userId cur new now salt s)) userId =
               Some (?f usr)"
    unfolding r user_findUnique_id_def using f
    by (simp add: find_map_id)
  show "length (\<lparr>h_password = hash L new 10 salt, h_changedAt = now\<rparr>
                        # take 4 (storedHistory usr)) \<le> 5"
    by simp
qed

theorem changePassword_outcomes_witness:
  "changePassword example_lib ''zz'' ''p5'' ''p6'' 60 ''t'' example_state =
     (Inl (AppError ''User not found'' 404), example_state)
   \<and> changePassword example_lib ''u2'' ''bad'' ''p6'' 60 ''t'' example_state =
     (Inl (AppError ''Current password is incorrect'' 400), example_state)
   \<and> changePassword example_lib ''u2'' ''p5'' ''p1'' 60 ''t'' example_state =
     (Inl (AppError ''New password cannot be the same as any of your last 5 passwords'' 400),
      example_state)
   \<and> fst (changePassword example_lib ''u2'' ''p5'' ''p6'' 60 ''t'' example_state) =
       Inr \<lparr>message = ''Password updated successfully''\<rparr>
   \<and> user_findUnique_id
       (snd (changePassword example_lib ''u2'' ''p5'' ''p6'' 60 ''t'' example_state)) ''u2'' =
       Some (bob\<lparr>u_password := ''t$p6'',
                 u_passwordHistory := Some
                   [\<lparr>h_password = ''t$p6'', h_changedAt = 60\<rparr>,
                    \<lparr>h_password = ''s$p5'', h_changedAt = 50\<rparr>,
                    \<lparr>h_password = ''s$p4'', h_changedAt = 40\<rparr>,
                    \<lparr>h_password = ''s$p3'', h_changedAt = 30\<rparr>,
                    \<lparr>h_password = ''s$p2'', h_changedAt = 20\<rparr>],
                 u_lastPasswordChange := Some 60\<rparr>)"
proof -
  have none: "user_findUnique_id example_state ''zz'' = None"
    by (simp add: user_findUnique_id_def example_state_def alice_def bob_def)
  have some: "user_findUnique_id example_state ''u2'' = Some bob"
    by (simp add: user_findUnique_id_def example_state_def alice_def bob_def)
  have bad: "\<not> compare example_lib ''bad'' (u_password bob)"
    and good: "compare example_lib ''p5'' (u_password bob)"
    by (simp_all add: example_lib_def bob_def)
  have hist: "storedHistory bob =
      [\<lparr>h_password = ''s$p5'', h_changedAt = 50\<rparr>,
       \<lparr>h_password = ''s$p4'', h_changedAt = 40\<rparr>,
       \<lparr>h_password = ''s$p3'', h_changedAt = 30\<rparr>,
       \<lparr>h_password = ''s$p2'', h_changedAt = 20\<rparr>,
       \<lparr>h_password = ''s$p1'', h_changedAt = 10\<rparr>]"
    by (simp add: storedHistory_def bob_def)
  have reused: "\<exists>h \<in> set (storedHistory bob). compare example_lib ''p1'' (h_password h)"
    unfolding hist by (simp add: example_lib_def)
  have fresh: "\<forall>h \<in> set (storedHistory bob). \<not> compare example_lib ''p6'' (h_password h)"
    unfolding hist by (simp add: example_lib_def)
  have hs: "hash example_lib ''p6'' 10 ''t'' = ''t$p6''"
    by (simp add: example_lib_def)
  have 1: "changePassword example_lib ''zz'' ''p5'' ''p6'' 60 ''t'' example_state =
     (Inl (AppError ''User not found'' 404), example_state)"
    using changePassword_outcomes [where s = example_state and userId = "''zz''"] none
    by blast
  have 2: "changePassword example_lib ''u2'' ''bad'' ''p6'' 60 ''t'' example_state =
     (Inl (AppError ''Current password is incorrect'' 400), example_state)"
    using changePassword_outcomes [where s = example_state and userId = "''u2''"
        and L = example_lib and cur = "''bad''"] some bad
    by blast
  have 3: "changePassword example_lib ''u2'' ''p5'' ''p1'' 60 ''t'' example_state =
     (Inl (AppError ''New password cannot be the same as any of your last 5 passwords'' 400),
      example_state)"
    using changePassword_outcomes [where s = example_state and userId = "''u2''"
        and L = example_lib and cur = "''p5''" and new = "''p1''"] some good reused
    by blast
  note t4 = changePassword_outcomes [where s = example_state and userId = "''u2''"
        and L = example_lib and cur = "''p5''" and new = "''p6''" and now = 60
        and salt = "''t''"]
  have 4: "fst (changePassword example_lib ''u2'' ''p5'' ''p6'' 60 ''t'' example_state) =
       Inr \<lparr>message = ''Password updated successfully''\<rparr>"
    using t4 some good fresh by simp
  have "user_findUnique_id
       (snd (changePassword example_lib ''u2'' ''p5'' ''p6'' 60 ''t'' example_state)) ''u2'' =
       Some (bob\<lparr>u_password := hash example_lib ''p6'' 10 ''t'',
                 u_passwordHistory :=
                   Some (\<lparr>h_password = hash example_lib ''p6'' 10 ''t'', h_changedAt = 60\<rparr>
                           # take 4 (storedHistory bob)),
                 u_lastPasswordChange := Some 60\<rparr>)"
    using t4 some good fresh by blast
  then have 5: "user_findUnique_id
       (snd (changePassword example_lib ''u2'' ''p5'' ''p6'' 60 ''t'' example_state)) ''u2'' =
       Some (bob\<lparr>u_password := ''t$p6'',
                 u_passwordHistory := Some
                   [\<lparr>h_password = ''t$p6'', h_changedAt = 60\<rparr>,
                    \<lparr>h_password = ''s$p5'', h_changedAt = 50\<rparr>,
                    \<lparr>h_password = ''s$p4'', h_changedAt = 40\<rparr>,
                    \<lparr>h_password = ''s$p3'', h_changedAt = 30\<rparr>,
                    \<lparr>h_password = ''s$p2'', h_changedAt = 20\<rparr>],
                 u_lastPasswordChange := Some 60\<rparr>)"
    unfolding hist hs by simp
  show ?thesis
    using 1 2 3 4 5 by blast
qed

lemma register_success:
  assumes "register L E data now g s = (Inr resp, s1)"
  shows "(\<exists>rid. users s1 = users s @
      [\<lparr>u_id = d_userId g, u_email = rg_email data,
        u_username = rg_username data,
        u_password = hash L (rg_password data) 10 (d_salt g),
        u_firstName = rg_firstName data, u_lastName = rg_lastName data,
        u_roleId = rid, u_companyId = d_companyId g,
        u_accountStatus = ''ACTIVE'', u_deactivatedAt = None,
        u_deactivationReason = None, u_lastLogin = None,
        u_lastPasswordChange = None, u_passwordHistory = None\<rparr>])
    \<and> (\<forall>x \<in> set (users s). u_id x \<noteq> d_userId g)
    \<and> us_id (ar_user resp) = d_userId g"
  using assms
  by (auto simp: register_def thenE_def ret_def company_create_def user_create_def
      createSession_result trackActivity_def userActivity_create_def authResponse_def Let_def
      user_defaults_def split: option.splits if_splits)

lemma changePassword_found:
  assumes "user_findUnique_id s userId = Some usr" and "compare L cur (u_password usr)"
  shows "fst (changePassword L userId cur new now salt s) =
    (case checkHistory L new (case u_passwordHistory usr of None \<Rightarrow> [] | Some hs \<Rightarrow> hs) of
       Inl e \<Rightarrow> Inl e
     | Inr _ \<Rightarrow> Inr \<lparr>message = ''Password updated successfully''\<rparr>)"
proof -
  from assms(1) have "find (\<lambda>u. u_id u = userId) (users s) = Some usr"
    by (simp add: user_findUnique_id_def)
  then show ?thesis
    using assms
    by (simp add: changePassword_def storedHistory_def thenE_def ret_def user_update_found
        Let_def split: sum.splits)
qed

text \<open>
  Claim C10. Once the account is found and the current password is accepted, the outcome
  of \<^verbatim>\<open>changePassword\<close> is decided by the entries of the stored history and by nothing
  else: it throws the password-reuse error exactly when the new password compares equal
  to some entry of the history, and it succeeds exactly when it compares equal to none.
  Whether the new password compares equal to the current stored hash plays no part. So on
  an account whose history is empty, a call whose new password is its current password
  succeeds. \<^verbatim>\<open>register\<close> creates the account without a history, so on the state left by a
  successful registration, changing the password of the new account from the registered
  password to the same password succeeds (given that the library's \<^verbatim>\<open>compare\<close> accepts the
  password against its own hash).
\<close>

theorem changePassword_same_password:
  "(\<forall>usr. user_findUnique_id s userId = Some usr \<and> compare L cur (u_password usr) \<longrightarrow>
       (fst (changePassword L userId cur new now salt s) =
          Inl (AppError
            ''New password cannot be the same as any of your last 5 passwords'' 400)
        \<longleftrightarrow> (\<exists>h \<in> set (case u_passwordHistory usr of None \<Rightarrow> [] | Some hs \<Rightarrow> hs).
               compare L new (h_password h)))
     \<and> (fst (changePassword L userId cur new now salt s) =
          Inr \<lparr>message = ''Password updated successfully''\<rparr>
        \<longleftrightarrow> (\<forall>h \<in> set (case u_passwordHistory usr of None \<Rightarrow> [] | Some hs \<Rightarrow> hs).
               \<not> compare L new (h_password h))))
   \<and> (\<forall>usr. user_findUnique_id s userId = Some usr \<and> storedHistory usr = []
        \<and> compare L pw (u_password usr) \<longrightarrow>
        fst (changePassword L userId pw pw now salt s) =
          Inr \<lparr>message = ''Password updated successfully''\<rparr>)
   \<and> (\<forall>E data t g resp s1.
        register L E data t g s = (Inr resp, s1)
        \<and> compare L (rg_password data) (hash L (rg_password data) 10 (d_salt g)) \<longrightarrow>
        (\<exists>usr. user_findUnique_id s1 (us_id (ar_user resp)) = Some usr
           \<and> u_passwordHistory usr = None
           \<and> u_password usr = hash L (rg_password data) 10 (d_salt g))
        \<and> fst (changePassword L (us_id (ar_user resp)) (rg_password data) (rg_password data)
                  now salt s1) =
            Inr \<lparr>message = ''Password updated successfully''\<rparr>)"
proof -
  have scan: "(fst (changePassword L userId cur new now salt s) =
          Inl (AppError
            ''New password cannot be the same as any of your last 5 passwords'' 400)
        \<longleftrightarrow> (\<exists>h \<in> set (case u_passwordHistory usr of None \<Rightarrow> [] | Some hs \<Rightarrow> hs).
               compare L new (h_password h)))
     \<and> (fst (changePassword L userId cur new now salt s) =
          Inr \<lparr>message = ''Password updated successfully''\<rparr>
        \<longleftrightarrow> (\<forall>h \<in> set (case u_passwordHistory usr of None \<Rightarrow> [] | Some hs \<Rightarrow> hs).
               \<not> compare L new (h_password h)))"
    if f: "user_findUnique_id s userId = Some usr" and c: "compare L cur (u_password usr)"
    for usr
  proof (cases "\<exists>h \<in> set (case u_passwordHistory usr of None \<Rightarrow> [] | Some hs \<Rightarrow> hs).
               compare L new (h_password h)")
    case True
    then have "checkHistory L new (case u_passwordHistory usr of None \<Rightarrow> [] | Some hs \<Rightarrow> hs)
        = Inl (AppError
            ''New password cannot be the same as any of your last 5 passwords'' 400)"
      by (rule checkHistory_Inl)
    then have "fst (changePassword L userId cur new now salt s) =
          Inl (AppError
            ''New password cannot be the same as any of your last 5 passwords'' 400)"
      using changePassword_found [OF f c, of new now salt] by simp
    with True show ?thesis by auto
  next
    case False
    then have "checkHistory L new (case u_passwordHistory usr of None \<Rightarrow> [] | Some hs \<Rightarrow> hs)
        = Inr ()"
      by (intro checkHistory_Inr) blast
    then have "fst (changePassword L userId cur new now salt s) =
          Inr \<lparr>message = ''Password updated successfully''\<rparr>"
      using changePassword_found [OF f c, of new now salt] by simp
    with False show ?thesis by auto
  qed
  have general: "fst (changePassword L i p p now salt s') =
      Inr \<lparr>message = ''Password updated successfully''\<rparr>"
    if "user_findUnique_id s' i = Some usr" "storedHistory usr = []"
      "compare L p (u_password usr)" for s' i p usr
  proof -
    from that(1) have "find (\<lambda>u. u_id u = i) (users s') = Some usr"
      by (simp add: user_findUnique_id_def)
    then show ?thesis
      using that
      by (simp add: changePassword_def thenE_def ret_def user_update_found Let_def)
  qed
  have reg: "(\<exists>usr. user_findUnique_id s1 (us_id (ar_user resp)) = Some usr
           \<and> u_passwordHistory usr = None
           \<and> u_password usr = hash L (rg_password data) 10 (d_salt g))
        \<and> fst (changePassword L (us_id (ar_user resp)) (rg_password data) (rg_password data)
                  now salt s1) =
            Inr \<lparr>message = ''Password updated successfully''\<rparr>"
    if r: "register L E data t g s = (Inr resp, s1)"
      and c: "compare L (rg_password data) (hash L (rg_password data) 10 (d_salt g))"
    for E data t g resp s1
  proof -
    from register_success [OF r] obtain rid where
      us: "users s1 = users s @
        [\<lparr>u_id = d_userId g, u_email = rg_email data,
          u_username = rg_username data,
          u_password = hash L (rg_password data) 10 (d_salt g),
          u_firstName = rg_firstName data, u_lastName = rg_lastName data,
          u_roleId = rid, u_companyId = d_companyId g,
          u_accountStatus = ''ACTIVE'', u_deactivatedAt = None,
          u_deactivationReason = None, u_lastLogin = None,
          u_lastPasswordChange = None, u_passwordHistory = None\<rparr>]"
      and fr: "\<forall>x \<in> set (users s). u_id x \<noteq> d_userId g"
      and id: "us_id (ar_user resp) = d_userId g"
      by blast
    let ?u = "\<lparr>u_id = d_userId g, u_email = rg_email data,
          u_username = rg_username data,
          u_password = hash L (rg_password data) 10 (d_salt g),
          u_firstName = rg_firstName data, u_lastName = rg_lastName data,
          u_roleId = rid, u_companyId = d_companyId g,
          u_accountStatus = ''ACTIVE'', u_deactivatedAt = None,
          u_deactivationReason = None, u_lastLogin = None,
          u_lastPasswordChange = None, u_passwordHistory = None\<rparr>"
    have f: "user_findUnique_id s1 (us_id (ar_user resp)) = Some ?u"
      unfolding user_findUnique_id_def us id
      using fr by (intro find_append_fresh) auto
    have "fst (changePassword L (us_id (ar_user resp)) (rg_password data) (rg_password data)
                  now salt s1) =
            Inr \<lparr>message = ''Password updated successfully''\<rparr>"
      using c by (intro general [OF f]) (simp_all add: storedHistory_def)
    with f show ?thesis by simp
  qed
  show ?thesis
    using scan general reg by blast
qed

theorem changePassword_same_password_witness:
  "fst (register example_lib example_env carol_data 7 example_drawn example_state) =
     Inr \<lparr>accessToken = ''k1.u3.a'', refreshToken = ''k2.u3.r1'',
          ar_user = \<lparr>us_id = ''u3'', us_email = ''c@x'', us_username = ''carol'',
                     us_role = ''USER'', us_companyId = ''c3''\<rparr>\<rparr>
   \<and> compare example_lib ''pw3'' (hash example_lib ''pw3'' 10 ''t'')
   \<and> fst (changePassword example_lib ''u3'' ''pw3'' ''pw3'' 9 ''v''
            (snd (register example_lib example_env carol_data 7 example_drawn example_state))) =
       Inr \<lparr>message = ''Password updated successfully''\<rparr>
   \<and> fst (changePassword example_lib ''u1'' ''pw'' ''pw'' 9 ''v'' example_state) =
       Inr \<lparr>message = ''Password updated successfully''\<rparr>
   \<and> compare example_lib ''p5'' (u_password bob)
   \<and> fst (changePassword example_lib ''u2'' ''p5'' ''p5'' 9 ''v'' example_state) =
       Inl (AppError ''New password cannot be the same as any of your last 5 passwords'' 400)
   \<and> fst (changePassword example_lib ''u2'' ''p5'' ''p1'' 9 ''v'' example_state) =
       Inl (AppError ''New password cannot be the same as any of your last 5 passwords'' 400)
   \<and> fst (changePassword example_lib ''u2'' ''p5'' ''p6'' 9 ''v'' example_state) =
       Inr \<lparr>message = ''Password updated successfully''\<rparr>"
proof -
  let ?resp = "\<lparr>accessToken = ''k1.u3.a'', refreshToken = ''k2.u3.r1'',
          ar_user = \<lparr>us_id = ''u3'', us_email = ''c@x'', us_username = ''carol'',
                     us_role = ''USER'', us_companyId = ''c3''\<rparr>\<rparr>"
  let ?s1 = "snd (register example_lib example_env carol_data 7 example_drawn example_state)"
  have up: "asciiUpperCase ''carol'' = ''CAROL''"
    by code_simp
  have r: "fst (register example_lib example_env carol_data 7 example_drawn example_state) =
      Inr ?resp"
    by (simp add: register_def user_findFirst_def role_findFirst_def example_state_def
        alice_def bob_def carol_data_def example_drawn_def example_lib_def example_env_def
        thenE_def ret_def company_create_def user_create_def createSession_result
        trackActivity_def userActivity_create_def authResponse_def generateTokens_def
        role_name_def alice_session_def user_defaults_def up Let_def)
  then have r': "register example_lib example_env carol_data 7 example_drawn example_state =
      (Inr ?resp, ?s1)"
    by (simp add: prod_eq_iff)
  have c: "compare example_lib (rg_password carol_data)
      (hash example_lib (rg_password carol_data) 10 (d_salt example_drawn))"
    by (simp add: example_lib_def carol_data_def example_drawn_def)
  have a: "user_findUnique_id example_state ''u1'' = Some alice"
    by (simp add: user_findUnique_id_def example_state_def alice_def)
  have ah: "storedHistory alice = []" and ac: "compare example_lib ''pw'' (u_password alice)"
    by (simp_all add: storedHistory_def alice_def example_lib_def)
  have b: "user_findUnique_id example_state ''u2'' = Some bob"
    by (simp add: user_findUnique_id_def example_state_def alice_def bob_def)
  have bc: "compare example_lib ''p5'' (u_password bob)"
    by (simp add: example_lib_def bob_def)
  have bh: "(case u_passwordHistory bob of None \<Rightarrow> [] | Some hs \<Rightarrow> hs) =
      [\<lparr>h_password = ''s$p5'', h_changedAt = 50\<rparr>,
       \<lparr>h_password = ''s$p4'', h_changedAt = 40\<rparr>,
       \<lparr>h_password = ''s$p3'', h_changedAt = 30\<rparr>,
       \<lparr>h_password = ''s$p2'', h_changedAt = 20\<rparr>,
       \<lparr>h_password = ''s$p1'', h_changedAt = 10\<rparr>]"
    by (simp add: bob_def)
  have in5: "\<exists>h \<in> set (case u_passwordHistory bob of None \<Rightarrow> [] | Some hs \<Rightarrow> hs).
      compare example_lib ''p5'' (h_password h)"
    unfolding bh by (simp add: example_lib_def)
  have in1: "\<exists>h \<in> set (case u_passwordHistory bob of None \<Rightarrow> [] | Some hs \<Rightarrow> hs).
      compare example_lib ''p1'' (h_password h)"
    unfolding bh by (simp add: example_lib_def)
  have out6: "\<forall>h \<in> set (case u_passwordHistory bob of None \<Rightarrow> [] | Some hs \<Rightarrow> hs).
      \<not> compare example_lib ''p6'' (h_password h)"
    unfolding bh by (simp add: example_lib_def)
  note t1 = changePassword_same_password [where s = example_state and L = example_lib
      and now = 9 and salt = "''v''" and userId = "''u1''" and pw = "''pw''"]
  have 1: "fst (changePassword example_lib (us_id (ar_user ?resp)) (rg_password carol_data)
      (rg_password carol_data) 9 ''v'' ?s1) = Inr \<lparr>message = ''Password updated successfully''\<rparr>"
    using t1 r' c by blast
  have 2: "fst (changePassword example_lib ''u1'' ''pw'' ''pw'' 9 ''v'' example_state) =
       Inr \<lparr>message = ''Password updated successfully''\<rparr>"
    using t1 a ah ac by blast
  have 3: "compare example_lib ''pw3'' (hash example_lib ''pw3'' 10 ''t'')"
    by (simp add: example_lib_def)
  from 1 have u3: "fst (changePassword example_lib ''u3'' ''pw3'' ''pw3'' 9 ''v'' ?s1) =
      Inr \<lparr>message = ''Password updated successfully''\<rparr>"
    by (simp add: carol_data_def)
  have 4: "fst (changePassword example_lib ''u2'' ''p5'' ''p5'' 9 ''v'' example_state) =
       Inl (AppError ''New password cannot be the same as any of your last 5 passwords'' 400)"
    using changePassword_same_password [where s = example_state and L = example_lib
      and now = 9 and salt = "''v''" and userId = "''u2''" and cur = "''p5''"
      and new = "''p5''"] b bc in5
    by blast
  have 5: "fst (changePassword example_lib ''u2'' ''p5'' ''p1'' 9 ''v'' example_state) =
       Inl (AppError ''New password cannot be the same as any of your last 5 passwords'' 400)"
    using changePassword_same_password [where s = example_state and L = example_lib
      and now = 9 and salt = "''v''" and userId = "''u2''" and cur = "''p5''"
      and new = "''p1''"] b bc in1
    by blast
  have 6: "fst (changePassword example_lib ''u2'' ''p5'' ''p6'' 9 ''v'' example_state) =
       Inr \<lparr>message = ''Password updated successfully''\<rparr>"
    using changePassword_same_password [where s = example_state and L = example_lib
      and now = 9 and salt = "''v''" and userId = "''u2''" and cur = "''p5''"
      and new = "''p6''"] b bc out6
    by blast
  show ?thesis
    using r u3 2 3 bc 4 5 6 by blast
qed

subsection \<open>Login\<close>

lemma trackFailedLoginAttempt_unknown:
  "user_findUnique_email s e = None \<Longrightarrow>
   trackFailedLoginAttempt e ip ua now s =
     (Inr (), s\<lparr>failedLoginAttempts := failedLoginAttempts s @
        [\<lparr>f_email = e, f_ipAddress = ip, f_userAgent = ua, f_userId = None,
          f_createdAt = now\<rparr>]\<rparr>)"
  by (simp add: trackFailedLoginAttempt_def failedLoginAttempt_create_def)

lemma trackFailedLoginAttempt_known:
  assumes "user_findUnique_email s e = Some u"
  shows "\<exists>s'. trackFailedLoginAttempt e ip ua now s = (Inr (), s')
     \<and> failedLoginAttempts s' = failedLoginAttempts s @
        [\<lparr>f_email = e, f_ipAddress = ip, f_userAgent = ua, f_userId = Some (u_id u),
          f_createdAt = now\<rparr>]"
proof -
  from assms have "u \<in> set (users s)"
    by (auto simp: user_findUnique_email_def dest: find_Some_mem)
  then obtain y where "find (\<lambda>x. u_id x = u_id u) (users s) = Some y"
    using find_exists [of u "users s" "\<lambda>x. u_id x = u_id u"] by auto
  then show ?thesis
    using assms
    by (simp add: trackFailedLoginAttempt_def failedLoginAttempt_create_def Let_def
        thenE_def ret_def user_update_def)
qed

text \<open>
  Claim C9. When the account that the email resolves to is \<^verbatim>\<open>LOCKED\<close> with lock-start \<open>d\<close>
  and the instant of the request is before \<open>d\<close> plus 15 minutes, \<^verbatim>\<open>login\<close> throws the
  account-locked error whatever the password is, and the state after the call is the state
  before it: no failed attempt is appended, \<^verbatim>\<open>lastLogin\<close> is not written, no session and no
  activity is created, and the lock-start is not moved.
\<close>

theorem login_locked_frame:
  assumes "user_findUnique_email s (lg_email data) = Some usr"
    and "distinct (map u_id (users s))"
    and "u_accountStatus usr = ''LOCKED''"
    and "u_deactivatedAt usr = Some d"
    and "now < d + 15 * 60 * 1000"
  shows "login L E data now g s =
    (Inl (AppError
       ''Account is locked due to too many failed attempts. Please try again later.'' 401), s)"
proof -
  from assms(1) have "usr \<in> set (users s)"
    by (auto simp: user_findUnique_email_def dest: find_Some_mem)
  with assms(2) have "user_findUnique_id s (u_id usr) = Some usr"
    by (simp add: user_findUnique_id_def find_id_distinct)
  then have "isAccountLocked (u_id usr) now s = (Inr True, s)"
    using assms(3-5) by (rule isAccountLocked_True)
  then show ?thesis
    using assms(1) by (simp add: login_def thenE_def throw_def)
qed

theorem login_locked_frame_witness:
  "user_findUnique_email locked_state ''a@x'' = Some locked_alice
   \<and> distinct (map u_id (users locked_state))
   \<and> login example_lib example_env (alice_login ''bad'') 2000 example_drawn locked_state =
       (Inl (AppError
          ''Account is locked due to too many failed attempts. Please try again later.'' 401),
        locked_state)
   \<and> login example_lib example_env (alice_login ''pw'') 900999 example_drawn locked_state =
       (Inl (AppError
          ''Account is locked due to too many failed attempts. Please try again later.'' 401),
        locked_state)"
proof -
  have e: "user_findUnique_email locked_state (lg_email (alice_login pw)) = Some locked_alice"
    for pw
    by (simp add: user_findUnique_email_def locked_state_def locked_alice_def alice_def
        alice_login_def)
  have e': "user_findUnique_email locked_state ''a@x'' = Some locked_alice"
    using e [of "''pw''"] by (simp add: alice_login_def)
  have d: "distinct (map u_id (users locked_state))"
    by (simp add: locked_state_def locked_alice_def alice_def bob_def)
  have st: "u_accountStatus locked_alice = ''LOCKED''"
    and at: "u_deactivatedAt locked_alice = Some 1000"
    by (simp_all add: locked_alice_def)
  have 1: "login example_lib example_env (alice_login ''bad'') 2000 example_drawn locked_state =
       (Inl (AppError
          ''Account is locked due to too many failed attempts. Please try again later.'' 401),
        locked_state)"
    using login_locked_frame [OF e d st at] by simp
  have 2: "login example_lib example_env (alice_login ''pw'') 900999 example_drawn locked_state =
       (Inl (AppError
          ''Account is locked due to too many failed attempts. Please try again later.'' 401),
        locked_state)"
    using login_locked_frame [OF e d st at] by simp
  show ?thesis
    using e' d 1 2 by blast
qed

text \<open>
  Claim C5, as stated, fails on a locked account: the email is known, the password is
  wrong, and the request is answered with the account-locked message while no failed
  attempt is recorded.
\<close>

theorem login_invalid_credentials_counterexample:
  "user_findUnique_email locked_state ''a@x'' = Some locked_alice
   \<and> compare example_lib ''bad'' (u_password locked_alice) = False
   \<and> login example_lib example_env (alice_login ''bad'') 2000 example_drawn locked_state =
       (Inl (AppError
          ''Account is locked due to too many failed attempts. Please try again later.'' 401),
        locked_state)
   \<and> failedLoginAttempts locked_state = []"
  by (simp add: login_def user_findUnique_email_def user_findUnique_id_def isAccountLocked_def
      LOCKOUT_DURATION_def thenE_def throw_def locked_state_def locked_alice_def alice_def
      alice_login_def example_lib_def example_state_def)

text \<open>
  Claim C5, amended. A login with an email that no account holds appends a failed attempt
  keyed by the email (with no account reference) and throws
  \<^verbatim>\<open>AppError('Invalid credentials', 401)\<close>. A login with a known email and a wrong password,
  on an account that is not locked at the instant of the request, appends a failed attempt
  for the account and throws the same error, message and status.
\<close>

theorem login_invalid_credentials:
  "(user_findUnique_email s (lg_email data) = None \<longrightarrow>
      login L E data now g s =
        (Inl (AppError ''Invalid credentials'' 401),
         s\<lparr>failedLoginAttempts := failedLoginAttempts s @
            [\<lparr>f_email = lg_email data, f_ipAddress = lg_ipAddress data,
              f_userAgent = lg_userAgent data, f_userId = None, f_createdAt = now\<rparr>]\<rparr>))
   \<and> (\<forall>usr. user_findUnique_email s (lg_email data) = Some usr
          \<and> distinct (map u_id (users s))
          \<and> \<not> (u_accountStatus usr = ''LOCKED''
                \<and> (\<exists>d. u_deactivatedAt usr = Some d \<and> now < d + 15 * 60 * 1000))
          \<and> \<not> compare L (lg_password data) (u_password usr) \<longrightarrow>
        fst (login L E data now g s) = Inl (AppError ''Invalid credentials'' 401)
        \<and> failedLoginAttempts (snd (login L E data now g s)) =
            failedLoginAttempts s @
              [\<lparr>f_email = lg_email data, f_ipAddress = lg_ipAddress data,
                f_userAgent = lg_userAgent data, f_userId = Some (u_id usr),
                f_createdAt = now\<rparr>])"
proof (intro conjI allI impI)
  assume "user_findUnique_email s (lg_email data) = None"
  then show "login L E data now g s =
        (Inl (AppError ''Invalid credentials'' 401),
         s\<lparr>failedLoginAttempts := failedLoginAttempts s @
            [\<lparr>f_email = lg_email data, f_ipAddress = lg_ipAddress data,
              f_userAgent = lg_userAgent data, f_userId = None, f_createdAt = now\<rparr>]\<rparr>)"
    by (simp add: login_def thenE_def throw_def trackFailedLoginAttempt_unknown)
next
  fix usr
  assume h: "user_findUnique_email s (lg_email data) = Some usr
          \<and> distinct (map u_id (users s))
          \<and> \<not> (u_accountStatus usr = ''LOCKED''
                \<and> (\<exists>d. u_deactivatedAt usr = Some d \<and> now < d + 15 * 60 * 1000))
          \<and> \<not> compare L (lg_password data) (u_password usr)"
  let ?unl = "\<lambda>x. if u_id x = u_id usr
                 then x\<lparr>u_accountStatus := ''ACTIVE'', u_deactivatedAt := None,
                        u_deactivationReason := None\<rparr>
                 else x"
  let ?new = "\<lparr>f_email = lg_email data, f_ipAddress = lg_ipAddress data,
                f_userAgent = lg_userAgent data, f_userId = Some (u_id usr),
                f_createdAt = now\<rparr>"
  from h have mem: "usr \<in> set (users s)"
    by (auto simp: user_findUnique_email_def dest: find_Some_mem)
  with h have byid: "user_findUnique_id s (u_id usr) = Some usr"
    by (simp add: user_findUnique_id_def find_id_distinct)
  have notT: "isAccountLocked (u_id usr) now s \<noteq> (Inr True, s)"
    using byid h by (intro isAccountLocked_not_locked) auto
  obtain s1 where l: "isAccountLocked (u_id usr) now s = (Inr False, s1)"
    and s1: "s1 = s \<or> s1 = s\<lparr>users := map ?unl (users s)\<rparr>"
    using isAccountLocked_cases [of "u_id usr" now s] notT by auto
  have fa: "failedLoginAttempts s1 = failedLoginAttempts s"
    using s1 by auto
  have "\<exists>u'. user_findUnique_email s1 (lg_email data) = Some u' \<and> u_id u' = u_id usr"
    using s1 h by (auto simp: user_findUnique_email_def find_map_email)
  then obtain u' where u': "user_findUnique_email s1 (lg_email data) = Some u'"
    and id': "u_id u' = u_id usr" by blast
  obtain s2 where t: "trackFailedLoginAttempt (lg_email data) (lg_ipAddress data)
        (lg_userAgent data) now s1 = (Inr (), s2)"
    and fa2: "failedLoginAttempts s2 = failedLoginAttempts s1 @ [?new]"
    using trackFailedLoginAttempt_known [OF u', of "lg_ipAddress data" "lg_userAgent data" now]
      id'
    by auto
  have r: "login L E data now g s = (Inl (AppError ''Invalid credentials'' 401), s2)"
    using h l t by (simp add: login_def thenE_def throw_def)
  show "fst (login L E data now g s) = Inl (AppError ''Invalid credentials'' 401)"
    by (simp add: r)
  show "failedLoginAttempts (snd (login L E data now g s)) = failedLoginAttempts s @ [?new]"
    by (simp add: r fa2 fa)
qed

theorem login_invalid_credentials_witness:
  "login example_lib example_env
      \<lparr>lg_email = ''n@x'', lg_password = ''pw'', lg_ipAddress = None, lg_userAgent = None\<rparr>
      8 example_drawn example_state =
     (Inl (AppError ''Invalid credentials'' 401),
      example_state\<lparr>failedLoginAttempts :=
        [\<lparr>f_email = ''n@x'', f_ipAddress = None, f_userAgent = None, f_userId = None,
          f_createdAt = 8\<rparr>]\<rparr>)
   \<and> fst (login example_lib example_env (alice_login ''bad'') 8 example_drawn example_state) =
       Inl (AppError ''Invalid credentials'' 401)
   \<and> failedLoginAttempts
       (snd (login example_lib example_env (alice_login ''bad'') 8 example_drawn example_state)) =
       [alice_attempt 8]"
proof -
  let ?n = "\<lparr>lg_email = ''n@x'', lg_password = ''pw'', lg_ipAddress = None,
             lg_userAgent = None\<rparr>"
  have none: "user_findUnique_email example_state (lg_email ?n) = None"
    by (simp add: user_findUnique_email_def example_state_def alice_def bob_def)
  have some: "user_findUnique_email example_state (lg_email (alice_login ''bad'')) = Some alice"
    by (simp add: user_findUnique_email_def example_state_def alice_def alice_login_def)
  have d: "distinct (map u_id (users example_state))"
    by (simp add: example_state_def alice_def bob_def)
  have nl: "\<not> (u_accountStatus alice = ''LOCKED''
      \<and> (\<exists>d. u_deactivatedAt alice = Some d \<and> 8 < d + 15 * 60 * 1000))"
    by (simp add: alice_def)
  have bad: "\<not> compare example_lib (lg_password (alice_login ''bad'')) (u_password alice)"
    by (simp add: example_lib_def alice_def alice_login_def)
  have fa: "failedLoginAttempts example_state = []"
    by (simp add: example_state_def)
  note t1 = login_invalid_credentials [where s = example_state and data = ?n
      and L = example_lib and E = example_env and now = 8 and g = example_drawn]
  note t2 = login_invalid_credentials [where s = example_state
      and data = "alice_login ''bad''" and L = example_lib and E = example_env and now = 8
      and g = example_drawn]
  have 1: "login example_lib example_env ?n 8 example_drawn example_state =
     (Inl (AppError ''Invalid credentials'' 401),
      example_state\<lparr>failedLoginAttempts :=
        [\<lparr>f_email = ''n@x'', f_ipAddress = None, f_userAgent = None, f_userId = None,
          f_createdAt = 8\<rparr>]\<rparr>)"
    using t1 none fa by simp
  have 2: "fst (login example_lib example_env (alice_login ''bad'') 8 example_drawn
      example_state) = Inl (AppError ''Invalid credentials'' 401)"
    using t2 some d nl bad by blast
  have "failedLoginAttempts
       (snd (login example_lib example_env (alice_login ''bad'') 8 example_drawn example_state)) =
       failedLoginAttempts example_state @
         [\<lparr>f_email = lg_email (alice_login ''bad''), f_ipAddress = lg_ipAddress (alice_login ''bad''),
           f_userAgent = lg_userAgent (alice_login ''bad''), f_userId = Some (u_id alice),
           f_createdAt = 8\<rparr>]"
    using t2 some d nl bad by blast
  then have 3: "failedLoginAttempts
       (snd (login example_lib example_env (alice_login ''bad'') 8 example_drawn example_state)) =
       [alice_attempt 8]"
    by (simp add: fa alice_login_def alice_attempt_def alice_def)
  show ?thesis
    using 1 2 3 by blast
qed

subsection \<open>Lockout\<close>

text \<open>
  Claim C2. When the email resolves to an account and the attempt being recorded brings
  the number of that account's attempts of the last 15 minutes to 5 or more,
  \<^verbatim>\<open>trackFailedLoginAttempt\<close> appends the attempt and rewrites the account: status
  \<^verbatim>\<open>LOCKED\<close>, lock-start the instant of the call, and the reason
  \<^verbatim>\<open>Too many failed login attempts\<close>. On the state it leaves, every login for that email
  made before lock-start plus 15 minutes throws the account-locked error, whatever the
  password is, and changes nothing.
\<close>

theorem lockout_at_threshold:
  assumes "user_findUnique_email s email = Some usr"
    and "5 \<le> length (filter
            (\<lambda>a. f_userId a = Some (u_id usr) \<and> now - 15 * 60 * 1000 \<le> f_createdAt a)
            (failedLoginAttempts s @
               [\<lparr>f_email = email, f_ipAddress = ip, f_userAgent = ua,
                 f_userId = Some (u_id usr), f_createdAt = now\<rparr>]))"
  shows "\<exists>s'. trackFailedLoginAttempt email ip ua now s = (Inr (), s')
     \<and> failedLoginAttempts s' = failedLoginAttempts s @
          [\<lparr>f_email = email, f_ipAddress = ip, f_userAgent = ua,
            f_userId = Some (u_id usr), f_createdAt = now\<rparr>]
     \<and> user_findUnique_email s' email =
          Some (usr\<lparr>u_accountStatus := ''LOCKED'', u_deactivatedAt := Some now,
                    u_deactivationReason := Some ''Too many failed login attempts''\<rparr>)
     \<and> (\<forall>L E data t g. lg_email data = email \<and> t < now + 15 * 60 * 1000 \<longrightarrow>
          login L E data t g s' =
            (Inl (AppError
               ''Account is locked due to too many failed attempts. Please try again later.''
               401), s'))"
proof -
  let ?new = "\<lparr>f_email = email, f_ipAddress = ip, f_userAgent = ua,
            f_userId = Some (u_id usr), f_createdAt = now\<rparr>"
  let ?lock = "\<lambda>x. x\<lparr>u_accountStatus := ''LOCKED'', u_deactivatedAt := Some now,
                    u_deactivationReason := Some ''Too many failed login attempts''\<rparr>"
  let ?s' = "s\<lparr>failedLoginAttempts := failedLoginAttempts s @ [?new],
              users := map (\<lambda>x. if u_id x = u_id usr then ?lock x else x) (users s)\<rparr>"
  from assms(1) have mem: "usr \<in> set (users s)"
    by (auto simp: user_findUnique_email_def dest: find_Some_mem)
  then obtain y where y: "find (\<lambda>x. u_id x = u_id usr) (users s) = Some y"
    using find_exists [of usr "users s" "\<lambda>x. u_id x = u_id usr"] by auto
  have r: "trackFailedLoginAttempt email ip ua now s = (Inr (), ?s')"
    using assms y
    by (simp add: trackFailedLoginAttempt_def failedLoginAttempt_create_def Let_def
        failedLoginAttempt_count_def MAX_FAILED_ATTEMPTS_def LOCKOUT_DURATION_def
        thenE_def ret_def user_update_def)
  have em: "user_findUnique_email ?s' email = Some (?lock usr)"
    using assms(1) by (simp add: user_findUnique_email_def find_map_email)
  have id: "user_findUnique_id ?s' (u_id usr) = Some (?lock y)"
    using y by (simp add: user_findUnique_id_def find_map_id)
  have lk: "\<And>t. t < now + 15 * 60 * 1000 \<Longrightarrow>
      isAccountLocked (u_id usr) t ?s' = (Inr True, ?s')"
    by (rule isAccountLocked_True [OF id]) simp_all
  have lg: "\<And>L E data t g. lg_email data = email \<Longrightarrow> t < now + 15 * 60 * 1000 \<Longrightarrow>
      login L E data t g ?s' =
        (Inl (AppError
           ''Account is locked due to too many failed attempts. Please try again later.''
           401), ?s')"
    using em lk by (simp add: login_def thenE_def throw_def)
  show ?thesis
    using r em lg by (intro exI [of _ ?s']) simp
qed

theorem lockout_at_threshold_witness:
  "user_findUnique_email four_attempts_state ''a@x'' = Some alice
   \<and> fst (trackFailedLoginAttempt ''a@x'' None None 5 four_attempts_state) = Inr ()
   \<and> user_findUnique_email
       (snd (trackFailedLoginAttempt ''a@x'' None None 5 four_attempts_state)) ''a@x'' =
       Some (alice\<lparr>u_accountStatus := ''LOCKED'', u_deactivatedAt := Some 5,
                   u_deactivationReason := Some ''Too many failed login attempts''\<rparr>)
   \<and> fst (login example_lib example_env (alice_login ''pw'') 6 example_drawn
            (snd (trackFailedLoginAttempt ''a@x'' None None 5 four_attempts_state))) =
       Inl (AppError
          ''Account is locked due to too many failed attempts. Please try again later.'' 401)"
proof -
  have e: "user_findUnique_email four_attempts_state ''a@x'' = Some alice"
    by (simp add: user_findUnique_email_def four_attempts_state_def example_state_def alice_def)
  have c: "5 \<le> length (filter
            (\<lambda>a. f_userId a = Some (u_id alice) \<and> 5 - 15 * 60 * 1000 \<le> f_createdAt a)
            (failedLoginAttempts four_attempts_state @
               [\<lparr>f_email = ''a@x'', f_ipAddress = None, f_userAgent = None,
                 f_userId = Some (u_id alice), f_createdAt = 5\<rparr>]))"
    by (simp add: four_attempts_state_def alice_attempt_def alice_def)
  from lockout_at_threshold [OF e c] obtain s' where
    r: "trackFailedLoginAttempt ''a@x'' None None 5 four_attempts_state = (Inr (), s')"
    and em: "user_findUnique_email s' ''a@x'' =
          Some (alice\<lparr>u_accountStatus := ''LOCKED'', u_deactivatedAt := Some 5,
                      u_deactivationReason := Some ''Too many failed login attempts''\<rparr>)"
    and lg: "\<forall>L E data t g. lg_email data = ''a@x'' \<and> t < 5 + 15 * 60 * 1000 \<longrightarrow>
          login L E data t g s' =
            (Inl (AppError
               ''Account is locked due to too many failed attempts. Please try again later.''
               401), s')"
    by blast
  have "lg_email (alice_login ''pw'') = ''a@x'' \<and> (6::int) < 5 + 15 * 60 * 1000"
    by (simp add: alice_login_def)
  with lg have "login example_lib example_env (alice_login ''pw'') 6 example_drawn s' =
            (Inl (AppError
               ''Account is locked due to too many failed attempts. Please try again later.''
               401), s')"
    by blast
  then show ?thesis
    using e r em by simp
qed

subsection \<open>Refresh\<close>

text \<open>
  Claim C1, as stated, fails: Alice exists, the presented token verifies against the
  refresh secret and names her, no session row holds the token, and the flow throws
  \<^verbatim>\<open>AppError('Invalid refresh token', 401)\<close>, leaving the state as it was.
\<close>

theorem refresh_without_session_counterexample:
  "verify example_lib (rf_refreshToken alice_refresh) (JWT_REFRESH_SECRET example_env) 5 =
     Some \<lparr>p_userId = ''u1'', p_roleId = None, p_type = ''refresh'', p_jti = None\<rparr>
   \<and> user_findUnique_id no_session_state ''u1'' = Some alice
   \<and> userSessions no_session_state = []
   \<and> refreshTokenFlow example_lib example_env alice_refresh 5 example_drawn no_session_state =
       (Inl (AppError ''Invalid refresh token'' 401), no_session_state)"
  by (simp add: refreshTokenFlow_def catchE_def thenE_def throw_def invalidateSession_def
      userSession_delete_def user_findUnique_id_def no_session_state_def example_state_def
      example_lib_def example_env_def alice_refresh_def alice_def)

text \<open>
  Claim C1, amended. When the presented token verifies against the refresh secret and the
  account it names exists, the flow depends on the session table. If no session row holds
  the presented token, the delete throws, and the flow fails with
  \<^verbatim>\<open>AppError('Invalid refresh token', 401)\<close> on an unchanged state: no token pair is issued
  and no session is created. If a session row holds it, that row is deleted, a token pair
  is generated for the account, a session for the new refresh token is inserted, a
  \<^verbatim>\<open>TOKEN_REFRESHED\<close> activity is appended, and the flow succeeds.
\<close>

theorem refresh_needs_session:
  assumes "verify L (rf_refreshToken data) (JWT_REFRESH_SECRET E) now = Some decoded"
    and "user_findUnique_id s (p_userId decoded) = Some usr"
  shows "((\<forall>x \<in> set (userSessions s). s_token x \<noteq> rf_refreshToken data) \<longrightarrow>
           refreshTokenFlow L E data now g s = (Inl (AppError ''Invalid refresh token'' 401), s))
     \<and> ((\<exists>x \<in> set (userSessions s). s_token x = rf_refreshToken data) \<longrightarrow>
          (\<exists>resp s'. refreshTokenFlow L E data now g s = (Inr resp, s')
             \<and> (accessToken resp, refreshToken resp) = generateTokens L E usr now (d_random g)
             \<and> userSessions s' =
                 filter (\<lambda>x. s_token x \<noteq> refreshToken resp)
                   (filter (\<lambda>x. s_token x \<noteq> rf_refreshToken data) (userSessions s)) @
                 [\<lparr>s_userId = u_id usr, s_token = refreshToken resp,
                   s_ipAddress = rf_ipAddress data, s_userAgent = rf_userAgent data,
                   s_expiresAt = now + 24 * 60 * 60 * 1000, s_createdAt = now\<rparr>]
             \<and> userActivities s' = userActivities s @
                 [\<lparr>a_userId = u_id usr, a_action = ''TOKEN_REFRESHED'',
                   a_metadata = [(''username'', u_username usr)],
                   a_ipAddress = rf_ipAddress data, a_userAgent = rf_userAgent data,
                   a_createdAt = now\<rparr>]))"
  using assms
  by (auto simp: refreshTokenFlow_def catchE_def thenE_def throw_def ret_def
      invalidateSession_def userSession_delete_def createSession_result trackActivity_def
      userActivity_create_def authResponse_def Let_def)

theorem refresh_needs_session_witness:
  "refreshTokenFlow example_lib example_env alice_refresh 5 example_drawn
     (example_state\<lparr>userSessions := []\<rparr>) =
     (Inl (AppError ''Invalid refresh token'' 401), example_state\<lparr>userSessions := []\<rparr>)
   \<and> (\<exists>resp s'. refreshTokenFlow example_lib example_env alice_refresh 5 example_drawn
          example_state = (Inr resp, s')
        \<and> refreshToken resp = ''k2.u1.r1''
        \<and> userSessions s' =
            [\<lparr>s_userId = ''u1'', s_token = ''k2.u1.r1'', s_ipAddress = None,
              s_userAgent = None, s_expiresAt = 86400005, s_createdAt = 5\<rparr>])"
proof -
  have v: "verify example_lib (rf_refreshToken alice_refresh) (JWT_REFRESH_SECRET example_env) 5
      = Some \<lparr>p_userId = ''u1'', p_roleId = None, p_type = ''refresh'', p_jti = None\<rparr>"
    by (simp add: example_lib_def example_env_def alice_refresh_def)
  have u0: "user_findUnique_id (example_state\<lparr>userSessions := []\<rparr>)
      (p_userId \<lparr>p_userId = ''u1'', p_roleId = None, p_type = ''refresh'', p_jti = None\<rparr>)
      = Some alice"
    by (simp add: user_findUnique_id_def example_state_def alice_def)
  have u1: "user_findUnique_id example_state
      (p_userId \<lparr>p_userId = ''u1'', p_roleId = None, p_type = ''refresh'', p_jti = None\<rparr>)
      = Some alice"
    by (simp add: user_findUnique_id_def example_state_def alice_def)
  have n: "\<forall>x \<in> set (userSessions (example_state\<lparr>userSessions := []\<rparr>)).
      s_token x \<noteq> rf_refreshToken alice_refresh"
    by simp
  have y: "\<exists>x \<in> set (userSessions example_state). s_token x = rf_refreshToken alice_refresh"
    by (simp add: example_state_def alice_session_def alice_refresh_def)
  have 1: "refreshTokenFlow example_lib example_env alice_refresh 5 example_drawn
     (example_state\<lparr>userSessions := []\<rparr>) =
     (Inl (AppError ''Invalid refresh token'' 401), example_state\<lparr>userSessions := []\<rparr>)"
    using refresh_needs_session [OF v u0, of example_drawn] n by blast
  from refresh_needs_session [OF v u1, of example_drawn] y obtain resp s' where
    r: "refreshTokenFlow example_lib example_env alice_refresh 5 example_drawn example_state =
        (Inr resp, s')"
    and tk: "(accessToken resp, refreshToken resp) =
        generateTokens example_lib example_env alice 5 (d_random example_drawn)"
    and ss: "userSessions s' =
                 filter (\<lambda>x. s_token x \<noteq> refreshToken resp)
                   (filter (\<lambda>x. s_token x \<noteq> rf_refreshToken alice_refresh)
                      (userSessions example_state)) @
                 [\<lparr>s_userId = u_id alice, s_token = refreshToken resp,
                   s_ipAddress = rf_ipAddress alice_refresh,
                   s_userAgent = rf_userAgent alice_refresh,
                   s_expiresAt = 5 + 24 * 60 * 60 * 1000, s_createdAt = 5\<rparr>]"
    by blast
  from tk have rt: "refreshToken resp = ''k2.u1.r1''"
    by (simp add: generateTokens_def example_lib_def example_env_def example_drawn_def
        alice_def)
  have "userSessions s' =
            [\<lparr>s_userId = ''u1'', s_token = ''k2.u1.r1'', s_ipAddress = None,
              s_userAgent = None, s_expiresAt = 86400005, s_createdAt = 5\<rparr>]"
    unfolding ss rt
    by (simp add: example_state_def alice_session_def alice_refresh_def alice_def)
  with r rt 1 show ?thesis
    by blast
qed

end
